theory Spec2Isabelle
  imports Main "HOL-Library.AList"
begin

section \<open>Values and errors\<close>

text \<open>
  JavaScript values as far as the validator handles them. Primitives are carried by
  value. Objects live in a heap and are carried as references, so that a shallow copy
  (\<^verbatim>\<open>_.clone\<close>) and an in-place assignment can be told apart. Arrays are never
  written by the functions modelled here and are carried by value. A string is a list
  of code units below 256. The numbers are those that \<^verbatim>\<open>parseInt\<close> returns: the doubles
  that are integers (zero has no sign here), the two infinities and \<^verbatim>\<open>NaN\<close>.
\<close>

datatype jsval =
    Undefined
  | Null
  | Bool bool
  | NaN
  | Infinity
  | NegativeInfinity
  | Num int
  | Str string
  | Arr "jsval list"
  | Ref nat

text \<open>
  Everything the source throws or hands to a callback as an error. The message texts
  of the source (which embed \<^verbatim>\<open>util.inspect\<close> dumps) are reduced to the
  name they report.
\<close>

datatype error =
    AssertionError
  | TypeError
  | TypeNotFound string
  | ReferencedElementNotFound string
  | ReferencedAttributeNotFound string
  | ElementDoesNotMatch string
  | TypeDoesNotExpectChildren
  | UnexpectedAttribute string
  | InvalidAttributeValue string
  | InvalidNamespaceDeclaration string
  | ConflictingNamespaceDeclaration string string
  | InvalidSchema string
  | CouldNotDetermineNamespace string
  | ParseError string

section \<open>Property lookup\<close>

text \<open>
  The registries of the source are plain objects used as dictionaries, and a read
  \<^verbatim>\<open>registry[name]\<close> finds, besides the property stored under the name, the member
  of that name that every object inherits from \<^verbatim>\<open>Object.prototype\<close> (ECMAScript 5,
  15.2.4, and the accessors that V8 adds). A registry is the map of its own properties,
  and a read is \<open>lookupProperty\<close>: the own property, or the inherited member of that
  name, or nothing. An inherited member is a function (for \<^verbatim>\<open>__proto__\<close>, the
  prototype object): a truthy object with none of the properties that the source reads
  from a registry entry.
\<close>

definition objectPrototypeNames :: "string list" where
  "objectPrototypeNames =
     [''constructor'', ''toString'', ''toLocaleString'', ''valueOf'', ''hasOwnProperty'',
      ''isPrototypeOf'', ''propertyIsEnumerable'', ''__defineGetter__'', ''__defineSetter__'',
      ''__lookupGetter__'', ''__lookupSetter__'', ''__proto__'']"

datatype 'a property = Own 'a | Inherited string

definition lookupProperty :: "(string \<rightharpoonup> 'a) \<Rightarrow> string \<Rightarrow> 'a property option" where
  "lookupProperty registry name =
     (case registry name of
        Some v \<Rightarrow> Some (Own v)
      | None \<Rightarrow> if name \<in> set objectPrototypeNames then Some (Inherited name) else None)"

section \<open>Built-in type parsers\<close>

text \<open>
  \<^verbatim>\<open>String.prototype.toLowerCase\<close> on code units below 256: the ASCII capitals and
  the Latin-1 capitals (all of 192..222 but the multiplication sign 215) move up by 32.
\<close>

definition toLowerCase_char :: "char \<Rightarrow> char" where
  "toLowerCase_char c =
     (let n = (of_char c :: nat)
      in if (65 \<le> n \<and> n \<le> 90) \<or> (192 \<le> n \<and> n \<le> 222 \<and> n \<noteq> 215)
         then char_of (n + 32) else c)"

definition toLowerCase :: "string \<Rightarrow> string" where
  "toLowerCase s = map toLowerCase_char s"

text \<open>
  \<^verbatim>\<open>types.boolean.parse\<close>:
  \<^verbatim>\<open>return _.contains(['true', 'false', '0', '1'], value.toLowerCase());\<close>
\<close>

definition types_boolean_parse :: "string \<Rightarrow> error + jsval" where
  "types_boolean_parse v =
     Inr (Bool (toLowerCase v \<in> set [''true'', ''false'', ''0'', ''1'']))"

text \<open>
  The built-in \<^verbatim>\<open>parseInt(string)\<close> of ECMAScript 5 (15.1.2.2) with no radix:
  leading white space is dropped, then a sign, then a \<^verbatim>\<open>0x\<close> prefix (radix 16);
  the longest prefix of digits of the radix is read, and none gives \<^verbatim>\<open>NaN\<close>.
  The result is the Number value for the integer read (ECMAScript 5, 8.5): the nearest
  double, the one with the even significand when two are as near, and an infinity
  when that is beyond the largest double. An integer of at most 53 bits is a double;
  a longer one keeps its 53 leading bits, rounded, and a rounded value of more than
  1024 bits is out of range. (The digits after the 20th are not replaced by zeros,
  which 15.1.2.2 leaves to the implementation; V8 reads all of them.)
\<close>

definition isStrWhiteSpaceChar :: "char \<Rightarrow> bool" where
  "isStrWhiteSpaceChar c = ((of_char c :: nat) \<in> set [9, 10, 11, 12, 13, 32, 160])"

definition digitValue :: "char \<Rightarrow> nat option" where
  "digitValue c =
     (let n = (of_char c :: nat)
      in if 48 \<le> n \<and> n \<le> 57 then Some (n - 48)
         else if 97 \<le> n \<and> n \<le> 122 then Some (n - 87)
         else if 65 \<le> n \<and> n \<le> 90 then Some (n - 55)
         else None)"

definition isDigitOfRadix :: "nat \<Rightarrow> char \<Rightarrow> bool" where
  "isDigitOfRadix R c = (case digitValue c of Some d \<Rightarrow> d < R | None \<Rightarrow> False)"

definition isDecimalDigit :: "char \<Rightarrow> bool" where
  "isDecimalDigit c = (48 \<le> (of_char c :: nat) \<and> (of_char c :: nat) \<le> 57)"

definition digitsValue :: "nat \<Rightarrow> string \<Rightarrow> nat" where
  "digitsValue R Z = foldl (\<lambda>acc c. acc * R + (case digitValue c of Some d \<Rightarrow> d | None \<Rightarrow> 0)) 0 Z"

fun bitLength :: "nat \<Rightarrow> nat" where
  "bitLength n = (if n = 0 then 0 else Suc (bitLength (n div 2)))"

declare bitLength.simps [simp del]

definition roundToDouble :: "nat \<Rightarrow> nat option" where
  "roundToDouble n =
     (let e = bitLength n - 53;
          q = n div 2 ^ e;
          r = n mod 2 ^ e;
          m = (if 2 ^ e < 2 * r \<or> (2 * r = 2 ^ e \<and> odd q) then q + 1 else q) * 2 ^ e
      in if 1024 < bitLength m then None else Some m)"

definition numberValue :: "int \<Rightarrow> nat \<Rightarrow> jsval" where
  "numberValue sign mathInt =
     (case roundToDouble mathInt of
        None \<Rightarrow> if sign < 0 then NegativeInfinity else Infinity
      | Some m \<Rightarrow> Num (sign * int m))"

definition parseInt :: "string \<Rightarrow> jsval" where
  "parseInt inputString =
     (let S = dropWhile isStrWhiteSpaceChar inputString;
          sign = (if take 1 S = ''-'' then - 1 else (1 :: int));
          S = (if take 1 S = ''+'' \<or> take 1 S = ''-'' then drop 1 S else S);
          hex = (take 2 S = ''0x'' \<or> take 2 S = ''0X'');
          R = (if hex then 16 else 10);
          S = (if hex then drop 2 S else S);
          Z = takeWhile (isDigitOfRadix R) S
      in if Z = [] then NaN else numberValue sign (digitsValue R Z))"

text \<open>\<^verbatim>\<open>types.integer.parse\<close> (and its twelve aliases): \<^verbatim>\<open>return parseInt(value);\<close>\<close>

definition types_integer_parse :: "string \<Rightarrow> error + jsval" where
  "types_integer_parse v = Inr (parseInt v)"

text \<open>\<^verbatim>\<open>types.string.parse\<close> (and its aliases): \<^verbatim>\<open>return value;\<close>\<close>

definition types_string_parse :: "string \<Rightarrow> error + jsval" where
  "types_string_parse v = Inr (Str v)"

section \<open>Trial parsing\<close>

text \<open>
  \<^verbatim>\<open>tryParse(parse, value)\<close>: the loop runs \<open>i\<close> over the indices of \<open>parse\<close>, and its
  body calls \<^verbatim>\<open>parse[0](value)\<close>. A parser that throws is a parser that returns
  \<open>Inl\<close>. After the loop, \<^verbatim>\<open>assert(exception)\<close> fails when nothing was caught.
\<close>

function tryParse_loop ::
  "('v \<Rightarrow> error + 'r) list \<Rightarrow> 'v \<Rightarrow> nat \<Rightarrow> error option \<Rightarrow> error + 'r" where
  "tryParse_loop parse v i exception =
     (if i < length parse then
        (case (parse ! 0) v of
           Inr r \<Rightarrow> Inr r
         | Inl e \<Rightarrow> tryParse_loop parse v (i + 1) (Some e))
      else
        (case exception of
           None \<Rightarrow> Inl AssertionError
         | Some e \<Rightarrow> Inl e))"
  by pat_completeness auto
termination
  by (relation "measure (\<lambda>(parse, v, i, exception). length parse - i)") auto

definition tryParse :: "('v \<Rightarrow> error + 'r) list \<Rightarrow> 'v \<Rightarrow> error + 'r" where
  "tryParse parse v = tryParse_loop parse v 0 None"

text \<open>
  What the specification asks of trial parsing: the parsers are tried in order,
  the i-th on the i-th attempt, and the first that does not throw gives the result;
  when all throw, the last error is thrown.
\<close>

fun tryParse_spec_loop :: "('v \<Rightarrow> error + 'r) list \<Rightarrow> 'v \<Rightarrow> error option \<Rightarrow> error + 'r" where
  "tryParse_spec_loop [] v exception =
     (case exception of None \<Rightarrow> Inl AssertionError | Some e \<Rightarrow> Inl e)"
| "tryParse_spec_loop (p # ps) v exception =
     (case p v of Inr r \<Rightarrow> Inr r | Inl e \<Rightarrow> tryParse_spec_loop ps v (Some e))"

definition tryParse_spec :: "('v \<Rightarrow> error + 'r) list \<Rightarrow> 'v \<Rightarrow> error + 'r" where
  "tryParse_spec parse v = tryParse_spec_loop parse v None"

section \<open>The registries\<close>

text \<open>
  A type entry of \<^verbatim>\<open>types\<close>. A built-in type has a \<open>parse\<close>; a compiled simple or
  complex type has what the compiler stored: \<open>content\<close> (with the \<open>base\<close>, one name
  or, for a union, a list of names, and the attributes of an extension), \<open>children\<close>,
  \<open>anyChildren\<close>, \<open>isArray\<close> and the directly declared \<open>attributes\<close>. An absent
  property is \<open>None\<close> (\<open>anyChildren\<close> is only ever set to true). The children map a
  qualified name to the address of an element spec.
\<close>
datatype base = Single string | Union "string list"

datatype attribute_spec = AttributeType string | AttributeRef string

record type_content =
  base :: "base option"
  attributes :: "(string \<rightharpoonup> attribute_spec) option"

record type_entry =
  parse :: "(string \<Rightarrow> error + jsval) option"
  content :: "type_content option"
  children :: "(string \<rightharpoonup> nat) option"
  anyChildren :: bool
  isArray :: "bool option"
  attributes :: "(string \<rightharpoonup> attribute_spec) option"

text \<open>
  An element spec, \<^verbatim>\<open>{ref, isArrayDefault}\<close> or \<^verbatim>\<open>{type, isArray}\<close>. Element specs are
  objects that \<^verbatim>\<open>resolveElement\<close> hands on by reference and copies with
  \<^verbatim>\<open>_.clone\<close>: they live in a store, a list indexed by address, and
  \<^verbatim>\<open>baseElements\<close> maps a qualified name to an address.
\<close>

record element_spec =
  ref :: "string option"
  type :: "string option"
  isArray :: "bool option"
  isArrayDefault :: "bool option"

section \<open>Resolution helpers\<close>

text \<open>
  \<^verbatim>\<open>resolveToAttributes(xpath, typeName)\<close>: unknown type, else
  \<^verbatim>\<open>types[typeName].content.attributes\<close> when both exist, else \<^verbatim>\<open>{}\<close>.
\<close>

definition resolveToAttributes ::
  "(string \<rightharpoonup> type_entry) \<Rightarrow> string \<Rightarrow> error + (string \<rightharpoonup> attribute_spec)" where
  "resolveToAttributes types typeName =
     (case lookupProperty types typeName of
        None \<Rightarrow> Inl (TypeNotFound typeName)
      | Some (Inherited member) \<Rightarrow> Inr Map.empty
      | Some (Own t) \<Rightarrow>
          (case content t of
             Some c \<Rightarrow>
               (case type_content.attributes c of
                  Some a \<Rightarrow> Inr a
                | None \<Rightarrow> Inr Map.empty)
           | None \<Rightarrow> Inr Map.empty))"

text \<open>
  The attribute maps declared along the base chain of a type, nearest first (at most
  \<open>n\<close> types are visited): what the specification lets \<^verbatim>\<open>resolveToAttributes\<close> choose from.
\<close>

fun attributesAlongChain ::
  "nat \<Rightarrow> (string \<rightharpoonup> type_entry) \<Rightarrow> string \<Rightarrow> (string \<rightharpoonup> attribute_spec) list" where
  "attributesAlongChain 0 types typeName = []"
| "attributesAlongChain (Suc n) types typeName =
     (case types typeName of
        None \<Rightarrow> []
      | Some t \<Rightarrow>
          (case content t of
             None \<Rightarrow> []
           | Some c \<Rightarrow>
               (case type_content.attributes c of Some a \<Rightarrow> [a] | None \<Rightarrow> [])
               @ (case base c of
                    Some (Single b) \<Rightarrow> attributesAlongChain n types b
                  | _ \<Rightarrow> [])))"

definition ownContentAttributes :: "type_entry \<Rightarrow> (string \<rightharpoonup> attribute_spec)" where
  "ownContentAttributes t =
     (case content t of
        None \<Rightarrow> Map.empty
      | Some c \<Rightarrow> (case type_content.attributes c of None \<Rightarrow> Map.empty | Some a \<Rightarrow> a))"

text \<open>
  \<^verbatim>\<open>resolveElement(xpath, element)\<close>. The \<^verbatim>\<open>while (element.ref)\<close> loop follows the
  references through \<^verbatim>\<open>baseElements\<close> and keeps the last \<^verbatim>\<open>isArrayDefault\<close> it has
  seen; it need not end, so the loop is a partial function and \<open>None\<close> is "does not
  return". A \<open>ref\<close> is truthy when it is a non-empty string. An address outside the
  store stands for \<^verbatim>\<open>undefined\<close>, whose property read throws. A reference to a name
  that \<^verbatim>\<open>baseElements\<close> only inherits makes the inherited member the element; it has
  no \<open>ref\<close>, and the loop ends there.
\<close>

definition hasRef :: "element_spec \<Rightarrow> bool" where
  "hasRef e = (case ref e of Some r \<Rightarrow> r \<noteq> [] | None \<Rightarrow> False)"

partial_function (option) resolveElement_loop ::
  "element_spec list \<Rightarrow> (string \<rightharpoonup> nat) \<Rightarrow> bool option \<Rightarrow> nat
     \<Rightarrow> (error + bool option \<times> nat property) option" where
  "resolveElement_loop store baseElements isArrayDefault_var element =
     (if \<not> element < length store then Some (Inl TypeError)
      else if hasRef (store ! element) then
        (case lookupProperty baseElements (the (ref (store ! element))) of
           None \<Rightarrow> Some (Inl (ReferencedElementNotFound (the (ref (store ! element)))))
         | Some (Inherited member) \<Rightarrow>
             Some (Inr (case isArrayDefault (store ! element) of
                          Some b \<Rightarrow> Some b
                        | None \<Rightarrow> isArrayDefault_var,
                        Inherited member))
         | Some (Own next) \<Rightarrow>
             resolveElement_loop store baseElements
               (case isArrayDefault (store ! element) of
                  Some b \<Rightarrow> Some b
                | None \<Rightarrow> isArrayDefault_var)
               next)
      else Some (Inr (isArrayDefault_var, Own element)))"

declare resolveElement_loop.simps [code]

text \<open>
  After the loop: a resolved spec that has \<^verbatim>\<open>isArray\<close> is returned as it is (the
  \<^verbatim>\<open>assert(_.isBoolean(...))\<close> holds by the field's type); otherwise, with a default in
  scope, \<^verbatim>\<open>_.clone(element)\<close> allocates a copy and \<^verbatim>\<open>isArray\<close> is set on the copy.
  An inherited member has no \<^verbatim>\<open>isArray\<close> and no enumerable property, so its copy is
  an object with \<^verbatim>\<open>isArray\<close> alone.
\<close>

definition resolveElement ::
  "element_spec list \<Rightarrow> (string \<rightharpoonup> nat) \<Rightarrow> nat
     \<Rightarrow> ((error + nat property) \<times> element_spec list) option" where
  "resolveElement store baseElements element =
     (case resolveElement_loop store baseElements None element of
        None \<Rightarrow> None
      | Some (Inl e) \<Rightarrow> Some (Inl e, store)
      | Some (Inr (isArrayDefault_var, Own resolved)) \<Rightarrow>
          (case element_spec.isArray (store ! resolved) of
             Some b \<Rightarrow> Some (Inr (Own resolved), store)
           | None \<Rightarrow>
               (case isArrayDefault_var of
                  Some d \<Rightarrow>
                    Some (Inr (Own (length store)),
                          store @ [(store ! resolved)\<lparr>element_spec.isArray := Some d\<rparr>])
                | None \<Rightarrow> Some (Inr (Own resolved), store)))
      | Some (Inr (isArrayDefault_var, Inherited member)) \<Rightarrow>
          (case isArrayDefault_var of
             Some d \<Rightarrow>
               Some (Inr (Own (length store)),
                     store @ [\<lparr>ref = None, type = None, isArray = Some d,
                               isArrayDefault = None\<rparr>])
           | None \<Rightarrow> Some (Inr (Inherited member), store)))"

text \<open>
  A reference chain \<open>e \<rightarrow> e' \<rightarrow> \<dots> \<rightarrow> e''\<close>, as the list of its addresses: every spec
  but the last refers, through \<^verbatim>\<open>baseElements\<close>, to the next, and the last has no
  \<open>ref\<close>. \<open>scopeDefault\<close> is the \<^verbatim>\<open>isArrayDefault\<close> in scope at the end of the chain:
  the last one declared by a referring spec.
\<close>

fun refChain :: "element_spec list \<Rightarrow> (string \<rightharpoonup> nat) \<Rightarrow> nat list \<Rightarrow> bool" where
  "refChain store baseElements [] = False"
| "refChain store baseElements [e] = (e < length store \<and> \<not> hasRef (store ! e))"
| "refChain store baseElements (e # e' # es) =
     (e < length store \<and> hasRef (store ! e)
      \<and> baseElements (the (ref (store ! e))) = Some e'
      \<and> refChain store baseElements (e' # es))"

fun scopeDefault :: "element_spec list \<Rightarrow> bool option \<Rightarrow> nat list \<Rightarrow> bool option" where
  "scopeDefault store d [] = d"
| "scopeDefault store d [e] = d"
| "scopeDefault store d (e # e' # es) =
     scopeDefault store
       (case isArrayDefault (store ! e) of Some b \<Rightarrow> Some b | None \<Rightarrow> d) (e' # es)"



section \<open>The heap of document nodes\<close>

text \<open>
  An object is the list of its properties in insertion order; the heap is the list
  of the objects allocated so far, and an address is an index into it. The functions
  below are handed allocated addresses; an address outside the heap reads as an object
  with no property. A property that is absent reads \<^verbatim>\<open>undefined\<close>, an assignment
  replaces the property where it stands or appends it. \<^verbatim>\<open>_.clone\<close> of an object
  allocates an object with the same properties: the property values are shared, not
  copied.
\<close>

type_synonym object = "(string \<times> jsval) list"
type_synonym heap = "object list"

definition objAt :: "heap \<Rightarrow> nat \<Rightarrow> object" where
  "objAt h a = (if a < length h then h ! a else [])"

definition getProp :: "object \<Rightarrow> string \<Rightarrow> jsval" where
  "getProp obj name = (case map_of obj name of Some v \<Rightarrow> v | None \<Rightarrow> Undefined)"

definition setProp :: "heap \<Rightarrow> nat \<Rightarrow> string \<Rightarrow> jsval \<Rightarrow> heap" where
  "setProp h a name v = h[a := AList.update name v (objAt h a)]"

definition clone :: "heap \<Rightarrow> nat \<Rightarrow> nat \<times> heap" where
  "clone h a = (length h, h @ [objAt h a])"

text \<open>
  \<^verbatim>\<open>child.length\<close> and \<^verbatim>\<open>child[0]\<close>, for whatever \<open>child\<close> is: a property read of
  \<^verbatim>\<open>undefined\<close> or \<^verbatim>\<open>null\<close> throws, a string and an array have their length and
  first element, an object has the properties of these names, and a boolean or a
  number has neither.
\<close>

definition lengthOf :: "heap \<Rightarrow> jsval \<Rightarrow> error + jsval" where
  "lengthOf h child =
     (case child of
        Undefined \<Rightarrow> Inl TypeError
      | Null \<Rightarrow> Inl TypeError
      | Str s \<Rightarrow> Inr (Num (int (length s)))
      | Arr xs \<Rightarrow> Inr (Num (int (length xs)))
      | Ref a \<Rightarrow> Inr (getProp (objAt h a) ''length'')
      | _ \<Rightarrow> Inr Undefined)"

definition index0 :: "heap \<Rightarrow> jsval \<Rightarrow> jsval" where
  "index0 h child =
     (case child of
        Str s \<Rightarrow> (case s of [] \<Rightarrow> Undefined | c # cs \<Rightarrow> Str [c])
      | Arr xs \<Rightarrow> (case xs of [] \<Rightarrow> Undefined | x # ys \<Rightarrow> x)
      | Ref a \<Rightarrow> getProp (objAt h a) ''0''
      | _ \<Rightarrow> Undefined)"

section \<open>Collapsing child groups\<close>

text \<open>
  \<^verbatim>\<open>namespacedName(namespace, name)\<close>: both must be non-empty; a name that starts with
  \<^verbatim>\<open>xs:\<close> loses that prefix, a name with a colon is kept, any other name gets the
  prefix \<open>namespace\<close>.
\<close>

definition namespacedName :: "string \<Rightarrow> string \<Rightarrow> error + string" where
  "namespacedName namespace name =
     (if namespace = [] then Inl AssertionError
      else if name = [] then Inl AssertionError
      else if take 3 name = ''xs:'' then Inr (drop 3 name)
      else if CHR '':'' \<in> set name then Inr name
      else Inr (namespace @ '':'' @ name))"

text \<open>
  \<^verbatim>\<open>tryRemoveArrays(xpath, attrkey, charkey, xmlnskey, namespace, type, newValue)\<close>.
  The callbacks of its two \<^verbatim>\<open>_.each(value, function (child, name) ...)\<close> loops come
  first. Both skip the attribute, character content and namespace keys. The statements
  \<^verbatim>\<open>assert(child.length === 1, child); value[name] = child[0];\<close> are \<open>removeArray\<close>,
  which reads \<open>child\<close> as \<^verbatim>\<open>value[name]\<close>. A callback returns the error it throws, if
  any, and the heap it leaves; \<open>None\<close> is "does not return".
\<close>

definition isReservedKey :: "string \<Rightarrow> string \<Rightarrow> string \<Rightarrow> string \<Rightarrow> bool" where
  "isReservedKey attrkey charkey xmlnskey name =
     (name = attrkey \<or> name = charkey \<or> name = xmlnskey)"

definition removeArray :: "heap \<Rightarrow> nat \<Rightarrow> string \<Rightarrow> error option \<times> heap" where
  "removeArray h v name =
     (let child = getProp (objAt h v) name
      in case lengthOf h child of
           Inl e \<Rightarrow> (Some e, h)
         | Inr n \<Rightarrow>
             if n = Num 1 then (None, setProp h v name (index0 h child))
             else (Some AssertionError, h))"

text \<open>
  \<^verbatim>\<open>resolveElement(xpath, element).isArray\<close>: the result of \<^verbatim>\<open>resolveElement\<close> is used
  for this one read, so the copy it may have allocated is left out of the state.
\<close>

definition resolveElement_isArray ::
  "element_spec list \<Rightarrow> (string \<rightharpoonup> nat) \<Rightarrow> nat \<Rightarrow> (error + bool option) option" where
  "resolveElement_isArray store baseElements element =
     (case resolveElement store baseElements element of
        None \<Rightarrow> None
      | Some (Inl e, store') \<Rightarrow> Some (Inl e)
      | Some (Inr (Own r), store') \<Rightarrow> Some (Inr (element_spec.isArray (store' ! r)))
      | Some (Inr (Inherited member), store') \<Rightarrow> Some (Inr None))"

text \<open>
  Under \<^verbatim>\<open>anyChildren\<close> every child group is judged by the \<^verbatim>\<open>isArray\<close> of the type.
\<close>

definition anyChildren_step ::
  "string \<Rightarrow> string \<Rightarrow> string \<Rightarrow> type_entry \<Rightarrow> nat \<Rightarrow> string \<Rightarrow> heap
     \<Rightarrow> (error option \<times> heap) option" where
  "anyChildren_step attrkey charkey xmlnskey t v name h =
     (if isReservedKey attrkey charkey xmlnskey name then Some (None, h)
      else if type_entry.isArray t \<noteq> Some True then Some (removeArray h v name)
      else Some (None, h))"

text \<open>
  Under \<^verbatim>\<open>children\<close> the qualified child name must be declared, and the group is
  judged by the \<^verbatim>\<open>isArray\<close> of its resolved spec. A name that \<^verbatim>\<open>children\<close> only
  inherits passes the test \<^verbatim>\<open>!type[i].children[childName]\<close>, and the inherited member
  resolves to itself, with no \<^verbatim>\<open>isArray\<close>.
\<close>

definition children_step ::
  "element_spec list \<Rightarrow> (string \<rightharpoonup> nat) \<Rightarrow> string \<Rightarrow> string \<Rightarrow> string \<Rightarrow> string
     \<Rightarrow> (string \<rightharpoonup> nat) \<Rightarrow> nat \<Rightarrow> string \<Rightarrow> heap \<Rightarrow> (error option \<times> heap) option" where
  "children_step store baseElements attrkey charkey xmlnskey namespace cs v name h =
     (if isReservedKey attrkey charkey xmlnskey name then Some (None, h)
      else
        (case namespacedName namespace name of
           Inl e \<Rightarrow> Some (Some e, h)
         | Inr childName \<Rightarrow>
             (case lookupProperty cs childName of
                None \<Rightarrow> Some (Some (ElementDoesNotMatch childName), h)
              | Some (Inherited member) \<Rightarrow> Some (removeArray h v name)
              | Some (Own spec) \<Rightarrow>
                  (case resolveElement_isArray store baseElements spec of
                     None \<Rightarrow> None
                   | Some (Inl e) \<Rightarrow> Some (Some e, h)
                   | Some (Inr ia) \<Rightarrow>
                       if ia \<noteq> Some True then Some (removeArray h v name)
                       else Some (None, h)))))"

text \<open>
  \<^verbatim>\<open>_.each\<close> over the keys of an object, in order, until a callback throws. (A node
  of the document has no numeric \<^verbatim>\<open>length\<close> property, so underscore takes it for an
  object, not for an array; \<^verbatim>\<open>_.size\<close> then counts its keys.)
\<close>

fun each ::
  "(string \<Rightarrow> heap \<Rightarrow> (error option \<times> heap) option) \<Rightarrow> string list \<Rightarrow> heap
     \<Rightarrow> (error option \<times> heap) option" where
  "each iterator [] h = Some (None, h)"
| "each iterator (name # names) h =
     (case iterator name h of
        None \<Rightarrow> None
      | Some (Some e, h') \<Rightarrow> Some (Some e, h')
      | Some (None, h') \<Rightarrow> each iterator names h')"

text \<open>
  One trial, the body of the \<^verbatim>\<open>for\<close> loop for \<^verbatim>\<open>type[i]\<close>: the copy
  \<^verbatim>\<open>var value = _.clone(newValue)\<close>, then the \<^verbatim>\<open>try\<close> block. It returns the address
  of the copy, or the error caught.
\<close>

definition tryRemoveArrays_trial ::
  "element_spec list \<Rightarrow> (string \<rightharpoonup> nat) \<Rightarrow> string \<Rightarrow> string \<Rightarrow> string \<Rightarrow> string
     \<Rightarrow> type_entry \<Rightarrow> nat \<Rightarrow> heap \<Rightarrow> ((error + nat) \<times> heap) option" where
  "tryRemoveArrays_trial store baseElements attrkey charkey xmlnskey namespace t newValue h =
     (case clone h newValue of (v, h1) \<Rightarrow>
        if anyChildren t then
          (if length (objAt h1 v) \<noteq> 1 then Some (Inl AssertionError, h1)
           else
             (case each (anyChildren_step attrkey charkey xmlnskey t v)
                     (map fst (objAt h1 v)) h1 of
                None \<Rightarrow> None
              | Some (Some e, h2) \<Rightarrow> Some (Inl e, h2)
              | Some (None, h2) \<Rightarrow> Some (Inr v, h2)))
        else
          (case children t of
             Some cs \<Rightarrow>
               (case each (children_step store baseElements attrkey charkey xmlnskey
                             namespace cs v)
                       (map fst (objAt h1 v)) h1 of
                  None \<Rightarrow> None
                | Some (Some e, h2) \<Rightarrow> Some (Inl e, h2)
                | Some (None, h2) \<Rightarrow> Some (Inr v, h2))
           | None \<Rightarrow> Some (Inl TypeDoesNotExpectChildren, h1)))"

text \<open>
  The loop over \<^verbatim>\<open>type[i]\<close>: the first trial that does not throw returns; after the
  loop, \<^verbatim>\<open>assert(exception); throw exception;\<close>.
\<close>

function tryRemoveArrays_loop ::
  "element_spec list \<Rightarrow> (string \<rightharpoonup> nat) \<Rightarrow> string \<Rightarrow> string \<Rightarrow> string \<Rightarrow> string
     \<Rightarrow> type_entry list \<Rightarrow> nat \<Rightarrow> nat \<Rightarrow> error option \<Rightarrow> heap
     \<Rightarrow> ((error + nat) \<times> heap) option" where
  "tryRemoveArrays_loop store baseElements attrkey charkey xmlnskey namespace types newValue
       i exception h =
     (if i < length types then
        (case tryRemoveArrays_trial store baseElements attrkey charkey xmlnskey namespace
                (types ! i) newValue h of
           None \<Rightarrow> None
         | Some (Inr v, h') \<Rightarrow> Some (Inr v, h')
         | Some (Inl e, h') \<Rightarrow>
             tryRemoveArrays_loop store baseElements attrkey charkey xmlnskey namespace
               types newValue (i + 1) (Some e) h')
      else
        (case exception of
           None \<Rightarrow> Some (Inl AssertionError, h)
         | Some e \<Rightarrow> Some (Inl e, h)))"
  by pat_completeness auto
termination
  by (relation "measure (\<lambda>(store, baseElements, attrkey, charkey, xmlnskey, namespace, types,
        newValue, i, exception, h). length types - i)") auto

definition tryRemoveArrays ::
  "element_spec list \<Rightarrow> (string \<rightharpoonup> nat) \<Rightarrow> string \<Rightarrow> string \<Rightarrow> string \<Rightarrow> string
     \<Rightarrow> type_entry list \<Rightarrow> nat \<Rightarrow> heap \<Rightarrow> ((error + nat) \<times> heap) option" where
  "tryRemoveArrays store baseElements attrkey charkey xmlnskey namespace types newValue h =
     tryRemoveArrays_loop store baseElements attrkey charkey xmlnskey namespace types newValue
       0 None h"

text \<open>
  The child spec that the type \<open>t\<close> declares for the group \<open>name\<close> resolves to "not
  an array": its \<^verbatim>\<open>isArray\<close> is false or absent.
\<close>

definition childSpecIsNotArray ::
  "element_spec list \<Rightarrow> (string \<rightharpoonup> nat) \<Rightarrow> string \<Rightarrow> type_entry \<Rightarrow> string \<Rightarrow> bool" where
  "childSpecIsNotArray store baseElements namespace t name =
     (case children t of
        None \<Rightarrow> False
      | Some cs \<Rightarrow>
          (case namespacedName namespace name of
             Inl e \<Rightarrow> False
           | Inr childName \<Rightarrow>
               (case cs childName of
                  None \<Rightarrow> False
                | Some spec \<Rightarrow>
                    (case resolveElement_isArray store baseElements spec of
                       Some (Inr ia) \<Rightarrow> ia \<noteq> Some True
                     | _ \<Rightarrow> False))))"

text \<open>
  What \<^verbatim>\<open>tryRemoveArrays\<close> goes by for the group \<open>name\<close> under the type \<open>t\<close>: the
  \<^verbatim>\<open>isArray\<close> of the type itself when the type has \<^verbatim>\<open>anyChildren\<close> (its child specs
  are then not looked at), the child spec otherwise.
\<close>

definition governedAsSingle ::
  "element_spec list \<Rightarrow> (string \<rightharpoonup> nat) \<Rightarrow> string \<Rightarrow> type_entry \<Rightarrow> string \<Rightarrow> bool" where
  "governedAsSingle store baseElements namespace t name =
     (if anyChildren t then type_entry.isArray t \<noteq> Some True
      else childSpecIsNotArray store baseElements namespace t name)"

text \<open>An iterator that writes only the property it is called for, of the object at \<open>v\<close>.\<close>

definition writesOwnKey :: "(string \<Rightarrow> heap \<Rightarrow> (error option \<times> heap) option) \<Rightarrow> nat \<Rightarrow> bool" where
  "writesOwnKey iterator v =
     (\<forall>n h r h'. iterator n h = Some (r, h') \<longrightarrow>
        length h' = length h
        \<and> (\<forall>b. b \<noteq> v \<longrightarrow> h' ! b = h ! b)
        \<and> (\<forall>k. k \<noteq> n \<longrightarrow> getProp (objAt h' v) k = getProp (objAt h v) k))"

section \<open>Schema documents and namespace prefixes\<close>

text \<open>
  A schema document as \<^verbatim>\<open>xml2js.parseString\<close> hands it over: an element with no
  attribute and no child is its text; any other element is an object with its
  attributes under \<^verbatim>\<open>$\<close> (when it has any) and, under each child tag, the list of the
  children of that tag. Reading \<^verbatim>\<open>$\<close> of a text gives \<^verbatim>\<open>undefined\<close>.
\<close>

datatype xmlnode = XText string | XNode "(string \<times> string) list option" "(string \<times> xmlnode list) list"

fun dollar :: "xmlnode \<Rightarrow> (string \<times> string) list option" where
  "dollar (XText s) = None"
| "dollar (XNode attrs tags) = attrs"

definition XMLSchema_uri :: string where
  "XMLSchema_uri = ''http://www.w3.org/2001/XMLSchema''"

text \<open>
  \<^verbatim>\<open>parseNamespacePrefixes(namespacePrefixes, input, cb)\<close> of the schema compiler.
  The inner loop runs over the attributes of one root element, in order (\<open>object\<close> is
  the whole of \<^verbatim>\<open>schema.$\<close>). Each round first calls \<^verbatim>\<open>schema.$.hasOwnProperty(attr)\<close>:
  with an attribute of that very name the call finds the attribute's value, a string,
  in place of the inherited function, and throws; otherwise it is true. The loop looks
  at the attributes named \<^verbatim>\<open>xmlns:...\<close>: an empty prefix is an error; the XML Schema namespace
  sets \<open>xsPrefix\<close> (once: \<^verbatim>\<open>assert(xsPrefix === '')\<close>) and is not recorded; a known
  URI with another prefix is the conflict error; otherwise the URI is bound to the
  prefix. A recorded prefix is truthy when it is not the empty string; a member that
  the table inherits under the URI is truthy and is no prefix, which is the conflict
  error as well (reported under the member's name). The table is changed in place, so
  it is returned with an error as well.
\<close>

definition hidesHasOwnProperty :: "(string \<times> 'a) list \<Rightarrow> bool" where
  "hidesHasOwnProperty object = (map_of object ''hasOwnProperty'' \<noteq> None)"

fun parseNamespacePrefixes_attrs ::
  "(string \<times> string) list \<Rightarrow> (string \<times> string) list \<Rightarrow> string \<Rightarrow> (string \<rightharpoonup> string)
     \<Rightarrow> (error + string) \<times> (string \<rightharpoonup> string)" where
  "parseNamespacePrefixes_attrs object [] xsPrefix namespacePrefixes =
     (Inr xsPrefix, namespacePrefixes)"
| "parseNamespacePrefixes_attrs object ((attr, val) # rest) xsPrefix namespacePrefixes =
     (if hidesHasOwnProperty object then (Inl TypeError, namespacePrefixes)
      else if take 6 attr = ''xmlns:'' then
        (let namespace = drop 6 attr
         in if namespace = [] then (Inl (InvalidNamespaceDeclaration attr), namespacePrefixes)
            else if val = XMLSchema_uri then
              (if xsPrefix = [] then
                 parseNamespacePrefixes_attrs object rest (namespace @ '':'') namespacePrefixes
               else (Inl AssertionError, namespacePrefixes))
            else
              (case lookupProperty namespacePrefixes val of
                 Some (Own known) \<Rightarrow>
                   if known \<noteq> [] \<and> known \<noteq> namespace then
                     (Inl (ConflictingNamespaceDeclaration known namespace), namespacePrefixes)
                   else parseNamespacePrefixes_attrs object rest xsPrefix
                          (namespacePrefixes(val \<mapsto> namespace))
               | Some (Inherited member) \<Rightarrow>
                   (Inl (ConflictingNamespaceDeclaration member namespace), namespacePrefixes)
               | None \<Rightarrow>
                   parseNamespacePrefixes_attrs object rest xsPrefix
                     (namespacePrefixes(val \<mapsto> namespace))))
      else parseNamespacePrefixes_attrs object rest xsPrefix namespacePrefixes)"

text \<open>
  The outer loop runs over the root elements of \<open>input\<close> (\<open>object\<close> is the whole of
  it), and each round first calls \<^verbatim>\<open>input.hasOwnProperty(element)\<close>, which throws
  when a root element has that very name; after the loop, \<^verbatim>\<open>cb(null, xsPrefix)\<close>.
\<close>

fun parseNamespacePrefixes_elements ::
  "(string \<times> xmlnode) list \<Rightarrow> (string \<times> xmlnode) list \<Rightarrow> string \<Rightarrow> (string \<rightharpoonup> string)
     \<Rightarrow> (error + string) \<times> (string \<rightharpoonup> string)" where
  "parseNamespacePrefixes_elements object [] xsPrefix namespacePrefixes =
     (Inr xsPrefix, namespacePrefixes)"
| "parseNamespacePrefixes_elements object ((element, schema) # rest) xsPrefix namespacePrefixes =
     (if hidesHasOwnProperty object then (Inl TypeError, namespacePrefixes)
      else
        (case dollar schema of
           Some attrs \<Rightarrow>
             (case parseNamespacePrefixes_attrs attrs attrs xsPrefix namespacePrefixes of
                (Inl err, namespacePrefixes') \<Rightarrow> (Inl err, namespacePrefixes')
              | (Inr xsPrefix', namespacePrefixes') \<Rightarrow>
                  parseNamespacePrefixes_elements object rest xsPrefix' namespacePrefixes')
         | None \<Rightarrow> parseNamespacePrefixes_elements object rest xsPrefix namespacePrefixes))"

definition parseNamespacePrefixes ::
  "(string \<rightharpoonup> string) \<Rightarrow> (string \<times> xmlnode) list \<Rightarrow> (error + string) \<times> (string \<rightharpoonup> string)" where
  "parseNamespacePrefixes namespacePrefixes input =
     parseNamespacePrefixes_elements input input [] namespacePrefixes"

text \<open>
  The table a parser starts with.
\<close>

definition BASE_NAMESPACES :: "string \<rightharpoonup> string" where
  "BASE_NAMESPACES = [''http://www.w3.org/XML/1998/namespace'' \<mapsto> ''xml'']"

section \<open>Adding a schema\<close>

text \<open>
  Modelled from the spec: the multi-value map helper (the module \<^verbatim>\<open>multivalue\<close>, which
  is not among the sources), "a mapping from key to set-of-values with idempotent
  insertion": \<^verbatim>\<open>hasValue(map, key, value)\<close> tells whether \<open>value\<close> is among the values
  of \<open>key\<close>, and \<^verbatim>\<open>addValue(map, key, value)\<close> adds it to them.
\<close>

type_synonym multivalue = "string \<Rightarrow> string set"

definition emptyMultivalue :: multivalue where
  "emptyMultivalue = (\<lambda>key. {})"

definition hasValue :: "multivalue \<Rightarrow> string \<Rightarrow> string \<Rightarrow> bool" where
  "hasValue m key v = (v \<in> m key)"

definition addValue :: "multivalue \<Rightarrow> string \<Rightarrow> string \<Rightarrow> multivalue" where
  "addValue m key v = m(key := insert v (m key))"

text \<open>
  The parser instance \<^verbatim>\<open>self\<close>: the schemas committed, the namespace-prefix table,
  and the registries the compilation fills (\<^verbatim>\<open>elements\<close>, \<^verbatim>\<open>attributes\<close>,
  \<^verbatim>\<open>types\<close>), which \<^verbatim>\<open>addSchema\<close> itself only hands on.
\<close>

record 'r xsd_parser =
  parsedSchemas :: multivalue
  namespacePrefixes :: "string \<rightharpoonup> string"
  registries :: 'r

text \<open>
  \<^verbatim>\<open>XsdMixin.addSchema(namespaceUrl, schemaContent, cb)\<close>. The callback's arguments are
  the result. \<open>parseString\<close> stands for \<^verbatim>\<open>xml2js.parseString\<close>. \<open>compile\<close> stands for
  the compilation proper (the \<^verbatim>\<open>XsdSchema\<close> calls \<^verbatim>\<open>parseImportsAndIncludes\<close>,
  \<^verbatim>\<open>parseElements\<close>, \<^verbatim>\<open>parseAttributes\<close>, \<^verbatim>\<open>parseTypes\<close> and the final
  \<^verbatim>\<open>assert(_.isEmpty(schema))\<close>): it returns the imports and includes, or the error
  thrown, and the registries as it leaves them. The steps of \<^verbatim>\<open>addSchema\<close> around
  them are spelled out: the guard on \<^verbatim>\<open>parsedSchemas\<close>, the single root element, the
  prefixes, the \<^verbatim>\<open>schema\<close> element (asserted to be truthy: it is there, and is not
  the empty text of an empty element), its \<^verbatim>\<open>targetNamespace\<close>, the prefix of the
  namespace, and the commit \<^verbatim>\<open>multivalue.addValue(self.parsedSchemas, ...)\<close>.
\<close>

definition targetNamespace :: "xmlnode \<Rightarrow> string option" where
  "targetNamespace schema =
     (case dollar schema of None \<Rightarrow> None | Some attrs \<Rightarrow> map_of attrs ''targetNamespace'')"

definition addSchema ::
  "(string \<Rightarrow> error + (string \<times> xmlnode) list)
     \<Rightarrow> (string property \<Rightarrow> string \<Rightarrow> string \<Rightarrow> xmlnode \<Rightarrow> 'r \<Rightarrow> (error + multivalue) \<times> 'r)
     \<Rightarrow> 'r xsd_parser \<Rightarrow> string \<Rightarrow> string \<Rightarrow> (error + multivalue) \<times> 'r xsd_parser" where
  "addSchema parseString compile self namespaceUrl schemaContent =
     (if hasValue (parsedSchemas self) namespaceUrl schemaContent then (Inr emptyMultivalue, self)
      else
        (case parseString schemaContent of
           Inl err \<Rightarrow> (Inl err, self)
         | Inr result \<Rightarrow>
             if length result \<noteq> 1 then (Inl (InvalidSchema namespaceUrl), self)
             else
               (case parseNamespacePrefixes (namespacePrefixes self) result of
                  (Inl err, np) \<Rightarrow> (Inl err, self\<lparr>namespacePrefixes := np\<rparr>)
                | (Inr xsPrefix, np) \<Rightarrow>
                    (case map_of result (xsPrefix @ ''schema'') of
                       None \<Rightarrow> (Inl AssertionError, self\<lparr>namespacePrefixes := np\<rparr>)
                     | Some schema \<Rightarrow>
                         if schema = XText [] then
                           (Inl AssertionError, self\<lparr>namespacePrefixes := np\<rparr>)
                         else if targetNamespace schema \<noteq> Some namespaceUrl then
                           (Inl (InvalidSchema namespaceUrl), self\<lparr>namespacePrefixes := np\<rparr>)
                         else
                           (case (case lookupProperty np namespaceUrl of
                                    None \<Rightarrow> None
                                  | Some (Own prefix) \<Rightarrow>
                                      if prefix = [] then None else Some (Own prefix)
                                  | Some (Inherited member) \<Rightarrow> Some (Inherited member)) of
                              None \<Rightarrow>
                                (Inl (CouldNotDetermineNamespace namespaceUrl),
                                 self\<lparr>namespacePrefixes := np\<rparr>)
                            | Some namespace \<Rightarrow>
                                (case compile namespace xsPrefix namespaceUrl schema
                                        (registries self) of
                                   (Inl err, regs) \<Rightarrow>
                                     (Inl err,
                                      self\<lparr>namespacePrefixes := np, registries := regs\<rparr>)
                                 | (Inr importsAndIncludes, regs) \<Rightarrow>
                                     (Inr importsAndIncludes,
                                      self\<lparr>namespacePrefixes := np, registries := regs,
                                        parsedSchemas :=
                                          addValue (parsedSchemas self) namespaceUrl
                                            schemaContent\<rparr>)))))))"

text \<open>
  \<^verbatim>\<open>knownSchemas()\<close>: a copy of \<^verbatim>\<open>self.parsedSchemas\<close>.
\<close>

definition knownSchemas :: "'r xsd_parser \<Rightarrow> multivalue" where
  "knownSchemas self = parsedSchemas self"

section \<open>Compiling the types of a schema\<close>

text \<open>
  The schema compiler (\<^verbatim>\<open>parseTypes\<close> and its helpers) consumes the parsed schema: it
  reads a property, then \<^verbatim>\<open>delete\<close>s it, and asserts in the end that nothing is left.
  A function of the model returns the node without what was deleted, where the source
  goes on to use the node. An error ends the compilation; the state it leaves is not
  part of the result. The names under which the compiler stores an entry are strings
  other than \<^verbatim>\<open>__proto__\<close> (an assignment under that name creates no property).

  An attribute value of the schema is a string, truthy when it is not empty.
  \<open>tagOf\<close> reads the children of a tag (\<^verbatim>\<open>node.tag\<close>, an array, or \<^verbatim>\<open>undefined\<close>),
  \<open>deleteTag\<close> and \<open>deleteDollar\<close> are \<^verbatim>\<open>delete node.tag\<close> and \<^verbatim>\<open>delete node.$\<close>, and
  \<open>isEmptyNode\<close> is \<^verbatim>\<open>_.isEmpty(node)\<close>.
\<close>

definition truthy :: "string option \<Rightarrow> bool" where
  "truthy s = (case s of Some v \<Rightarrow> v \<noteq> [] | None \<Rightarrow> False)"

fun tagOf :: "xmlnode \<Rightarrow> string \<Rightarrow> xmlnode list option" where
  "tagOf (XText s) tag = None"
| "tagOf (XNode attrs tags) tag = map_of tags tag"

fun deleteTag :: "string \<Rightarrow> xmlnode \<Rightarrow> xmlnode" where
  "deleteTag tag (XText s) = XText s"
| "deleteTag tag (XNode attrs tags) = XNode attrs (AList.delete tag tags)"

fun deleteDollar :: "xmlnode \<Rightarrow> xmlnode" where
  "deleteDollar (XText s) = XText s"
| "deleteDollar (XNode attrs tags) = XNode None tags"

fun isEmptyNode :: "xmlnode \<Rightarrow> bool" where
  "isEmptyNode (XText s) = (s = [])"
| "isEmptyNode (XNode attrs tags) = (attrs = None \<and> tags = [])"

text \<open>
  \<^verbatim>\<open>var XS_TYPES = _.keys(types);\<close> when only the built-in types are in the table.
\<close>

definition XS_TYPES :: "string list" where
  "XS_TYPES =
     [''string'', ''normalizedString'', ''token'', ''language'', ''NMTOKEN'', ''Name'',
      ''NCName'', ''ID'', ''IDREF'', ''ENTITY'', ''NMTOKENS'', ''IDREFS'', ''ENTITIES'',
      ''boolean'', ''integer'', ''nonPositiveInteger'', ''negativeInteger'', ''long'', ''int'',
      ''short'', ''byte'', ''nonNegativeInteger'', ''unsignedLong'', ''unsignedInt'',
      ''unsignedShort'', ''unsignedByte'', ''positiveInteger'', ''decimal'', ''double'',
      ''float'', ''dateTime'', ''date'', ''hexBinary'', ''base64Binary'', ''anyURI'']"

text \<open>
  \<^verbatim>\<open>namespacedTypeName(namespace, name)\<close>: both are asserted; a built-in name is kept,
  any other name is qualified.
\<close>

definition namespacedTypeName :: "string \<Rightarrow> string option \<Rightarrow> error + string" where
  "namespacedTypeName namespace name =
     (if namespace = [] then Inl AssertionError
      else if \<not> truthy name then Inl AssertionError
      else if the name \<in> set XS_TYPES then Inr (the name)
      else namespacedName namespace (the name))"

text \<open>
  \<^verbatim>\<open>maxOccurs === 'unbounded' || parseInt(maxOccurs) > 1\<close>
\<close>

definition maxOccursIsArray :: "string \<Rightarrow> bool" where
  "maxOccursIsArray maxOccurs =
     (maxOccurs = ''unbounded''
      \<or> (case parseInt maxOccurs of Num n \<Rightarrow> 1 < n | Infinity \<Rightarrow> True | _ \<Rightarrow> False))"

text \<open>
  What the compiler changes besides the schema: the global \<^verbatim>\<open>types\<close> (the types of
  nested simple types are stored at once), the store in which the element specs it
  creates are allocated, and the source of \<^verbatim>\<open>randomString()\<close>, a sequence of strings
  of which each call takes the next.
\<close>

record compile_state =
  globalTypes :: "string \<rightharpoonup> type_entry"
  elementStore :: "element_spec list"
  randomStrings :: "nat \<Rightarrow> string"
  randomCalls :: nat

definition allocElement :: "element_spec \<Rightarrow> compile_state \<Rightarrow> nat \<times> compile_state" where
  "allocElement spec st =
     (length (elementStore st), st\<lparr>elementStore := elementStore st @ [spec]\<rparr>)"

definition randomString :: "compile_state \<Rightarrow> string \<times> compile_state" where
  "randomString st = (randomStrings st (randomCalls st), st\<lparr>randomCalls := Suc (randomCalls st)\<rparr>)"

text \<open>
  \<^verbatim>\<open>parseTypesElement(namespace, element, isArrayDefault)\<close>: the one entry of the
  object it returns. \<^verbatim>\<open>isArrayDefault\<close> is \<^verbatim>\<open>null\<close> or a boolean.
\<close>

definition parseTypesElement ::
  "string \<Rightarrow> xmlnode \<Rightarrow> bool option \<Rightarrow> compile_state
     \<Rightarrow> error + ((string \<times> nat) \<times> compile_state)" where
  "parseTypesElement namespace element isArrayDefault_arg st =
     (case dollar element of
        None \<Rightarrow> Inl TypeError
      | Some attrs \<Rightarrow>
          if truthy (map_of attrs ''ref'') then
            (case namespacedName namespace (the (map_of attrs ''ref'')) of
               Inl e \<Rightarrow> Inl e
             | Inr elementReference \<Rightarrow>
                 (case allocElement
                         \<lparr>ref = Some elementReference, type = None, isArray = None,
                          isArrayDefault = isArrayDefault_arg\<rparr> st of
                    (a, st') \<Rightarrow> Inr ((elementReference, a), st')))
          else if \<not> truthy (map_of attrs ''name'') then Inl AssertionError
          else
            (case namespacedName namespace (the (map_of attrs ''name'')) of
               Inl e \<Rightarrow> Inl e
             | Inr elementName \<Rightarrow>
                 (case namespacedTypeName namespace (map_of attrs ''type'') of
                    Inl e \<Rightarrow> Inl e
                  | Inr typeName \<Rightarrow>
                      (case allocElement
                              \<lparr>ref = None, type = Some typeName,
                               isArray =
                                 (if truthy (map_of attrs ''maxOccurs'')
                                  then Some (maxOccursIsArray (the (map_of attrs ''maxOccurs'')))
                                  else isArrayDefault_arg),
                               isArrayDefault = None\<rparr> st of
                         (a, st') \<Rightarrow> Inr ((elementName, a), st')))))"

text \<open>
  \<^verbatim>\<open>_.each(elements || [], function (element) { _.extend(children,
  parseTypesElement(namespace, element, isArrayDefault)); })\<close>
\<close>

fun parseTypes_elements ::
  "string \<Rightarrow> bool option \<Rightarrow> xmlnode list \<Rightarrow> (string \<rightharpoonup> nat) \<Rightarrow> compile_state
     \<Rightarrow> error + ((string \<rightharpoonup> nat) \<times> compile_state)" where
  "parseTypes_elements namespace isArrayDefault_arg [] children_var st = Inr (children_var, st)"
| "parseTypes_elements namespace isArrayDefault_arg (element # rest) children_var st =
     (case parseTypesElement namespace element isArrayDefault_arg st of
        Inl e \<Rightarrow> Inl e
      | Inr ((name, a), st') \<Rightarrow>
          parseTypes_elements namespace isArrayDefault_arg rest (children_var(name \<mapsto> a)) st')"

text \<open>
  \<^verbatim>\<open>node.tag || []\<close>; \<^verbatim>\<open>node.$.name\<close>, where reading a property of an absent
  \<^verbatim>\<open>$\<close> throws; and what is left of \<^verbatim>\<open>node.$\<close> when the named attributes are deleted.
\<close>

definition tagList :: "xmlnode \<Rightarrow> string \<Rightarrow> xmlnode list" where
  "tagList node tag = (case tagOf node tag of Some nodes \<Rightarrow> nodes | None \<Rightarrow> [])"

definition dollarAttr :: "xmlnode \<Rightarrow> string \<Rightarrow> error + string option" where
  "dollarAttr node name =
     (case dollar node of None \<Rightarrow> Inl TypeError | Some attrs \<Rightarrow> Inr (map_of attrs name))"

definition dollarWithout :: "string list \<Rightarrow> xmlnode \<Rightarrow> (string \<times> string) list" where
  "dollarWithout names node =
     (case dollar node of None \<Rightarrow> [] | Some attrs \<Rightarrow> filter (\<lambda>(k, v). k \<notin> set names) attrs)"

text \<open>
  The block that opens a \<^verbatim>\<open>sequence\<close> and a \<^verbatim>\<open>choice\<close>: with a \<^verbatim>\<open>$\<close>, its
  \<^verbatim>\<open>maxOccurs\<close> gives \<^verbatim>\<open>isArrayDefault\<close>, and only \<^verbatim>\<open>minOccurs\<close> and
  \<^verbatim>\<open>maxOccurs\<close> may be there; then \<^verbatim>\<open>delete node.$\<close>.
\<close>

definition occursBlock :: "xmlnode \<Rightarrow> error + (bool option \<times> xmlnode)" where
  "occursBlock node =
     (case dollar node of
        Some attrs \<Rightarrow>
          if dollarWithout [''minOccurs'', ''maxOccurs''] node \<noteq> []
          then Inl AssertionError
          else Inr (if truthy (map_of attrs ''maxOccurs'')
                    then Some (maxOccursIsArray (the (map_of attrs ''maxOccurs'')))
                    else None,
                    deleteDollar node)
      | None \<Rightarrow> Inr (None, deleteDollar node))"

text \<open>
  \<^verbatim>\<open>parseTypesChoice(namespace, input)\<close>: the children of the one \<^verbatim>\<open>choice\<close> of
  \<open>input\<close>, which must hold elements only, and \<open>input\<close> without the \<^verbatim>\<open>choice\<close>.
\<close>

definition parseTypesChoice ::
  "string \<Rightarrow> xmlnode \<Rightarrow> compile_state
     \<Rightarrow> error + ((string \<rightharpoonup> nat) \<times> xmlnode \<times> compile_state)" where
  "parseTypesChoice namespace input st =
     (case tagOf input ''choice'' of
        None \<Rightarrow> Inl AssertionError
      | Some choice \<Rightarrow>
          if length choice \<noteq> 1 then Inl AssertionError
          else
            (case occursBlock (hd choice) of
               Inl e \<Rightarrow> Inl e
             | Inr (isArrayDefault_var, choice0) \<Rightarrow>
                 (case parseTypes_elements namespace isArrayDefault_var
                         (tagList choice0 ''element'') Map.empty st of
                    Inl e \<Rightarrow> Inl e
                  | Inr (children_var, st') \<Rightarrow>
                      if \<not> isEmptyNode (deleteTag ''element'' choice0) then Inl AssertionError
                      else Inr (children_var, deleteTag ''choice'' input, st'))))"

text \<open>
  \<^verbatim>\<open>memberTypes.split\<close> on white space: the pieces between the runs of white space (a string
  that starts or ends with white space has an empty first or last piece).
\<close>

function split_whitespace :: "string \<Rightarrow> string \<Rightarrow> string list" where
  "split_whitespace current [] = [current]"
| "split_whitespace current (c # cs) =
     (if isStrWhiteSpaceChar c
      then current # split_whitespace [] (dropWhile isStrWhiteSpaceChar cs)
      else split_whitespace (current @ [c]) cs)"
  by pat_completeness auto
termination
  by (relation "measure (\<lambda>(current, s). length s)")
     (auto simp: length_dropWhile_le le_imp_less_Suc)

fun namespacedTypeNames :: "string \<Rightarrow> string list \<Rightarrow> error + string list" where
  "namespacedTypeNames namespace [] = Inr []"
| "namespacedTypeNames namespace (b # bs) =
     (case namespacedTypeName namespace (Some b) of
        Inl e \<Rightarrow> Inl e
      | Inr n \<Rightarrow>
          (case namespacedTypeNames namespace bs of
             Inl e \<Rightarrow> Inl e
           | Inr ns \<Rightarrow> Inr (n # ns)))"

text \<open>
  \<^verbatim>\<open>parseSimpleType(namespace, input)\<close>. For each \<^verbatim>\<open>simpleType\<close> of \<open>input\<close>: not both a
  \<^verbatim>\<open>restriction\<close> and a \<^verbatim>\<open>union\<close>; a restriction gives the content
  \<^verbatim>\<open>{base: namespacedTypeName(...)}\<close> and may hold \<^verbatim>\<open>pattern\<close> and \<^verbatim>\<open>enumeration\<close>
  only; a union gives the content whose base is the list of its member types; the
  type is stored under its qualified \<^verbatim>\<open>name\<close>, which must be its only other
  attribute. Then \<^verbatim>\<open>delete input.simpleType\<close>.
\<close>

definition emptyType :: type_entry where
  "emptyType = \<lparr>parse = None, content = None, children = None, anyChildren = False,
                 isArray = None, attributes = None\<rparr>"

definition simpleType_restriction :: "string \<Rightarrow> xmlnode \<Rightarrow> error + type_content option" where
  "simpleType_restriction namespace simpleType =
     (case tagOf simpleType ''restriction'' of
        None \<Rightarrow> Inr None
      | Some restriction \<Rightarrow>
          if length restriction \<noteq> 1 then Inl AssertionError
          else
            (case dollarAttr (hd restriction) ''base'' of
               Inl e \<Rightarrow> Inl e
             | Inr b \<Rightarrow>
                 (case namespacedTypeName namespace b of
                    Inl e \<Rightarrow> Inl e
                  | Inr n \<Rightarrow>
                      if dollarWithout [''base''] (hd restriction) \<noteq> [] then Inl AssertionError
                      else if \<not> isEmptyNode
                                 (deleteTag ''enumeration''
                                    (deleteTag ''pattern'' (deleteDollar (hd restriction))))
                      then Inl AssertionError
                      else Inr (Some \<lparr>base = Some (Single n), attributes = None\<rparr>))))"

definition simpleType_union :: "string \<Rightarrow> xmlnode \<Rightarrow> error + type_content option" where
  "simpleType_union namespace simpleType =
     (case tagOf simpleType ''union'' of
        None \<Rightarrow> Inr None
      | Some unions \<Rightarrow>
          if length unions \<noteq> 1 then Inl AssertionError
          else
            (case dollarAttr (hd unions) ''memberTypes'' of
               Inl e \<Rightarrow> Inl e
             | Inr None \<Rightarrow> Inl TypeError
             | Inr (Some memberTypes) \<Rightarrow>
                 (case namespacedTypeNames namespace (split_whitespace [] memberTypes) of
                    Inl e \<Rightarrow> Inl e
                  | Inr ns \<Rightarrow>
                      if dollarWithout [''memberTypes''] (hd unions) \<noteq> [] then Inl AssertionError
                      else if \<not> isEmptyNode (deleteDollar (hd unions)) then Inl AssertionError
                      else Inr (Some \<lparr>base = Some (Union ns), attributes = None\<rparr>))))"

definition parseSimpleType_one :: "string \<Rightarrow> xmlnode \<Rightarrow> error + (string \<times> type_entry)" where
  "parseSimpleType_one namespace simpleType =
     (if tagOf simpleType ''restriction'' \<noteq> None \<and> tagOf simpleType ''union'' \<noteq> None
      then Inl AssertionError
      else
        (case simpleType_restriction namespace simpleType of
           Inl e \<Rightarrow> Inl e
         | Inr content1 \<Rightarrow>
             (case simpleType_union namespace simpleType of
                Inl e \<Rightarrow> Inl e
              | Inr content2 \<Rightarrow>
                  (case dollarAttr simpleType ''name'' of
                     Inl e \<Rightarrow> Inl e
                   | Inr name \<Rightarrow>
                       if \<not> truthy name then Inl AssertionError
                       else
                         (case namespacedName namespace (the name) of
                            Inl e \<Rightarrow> Inl e
                          | Inr typeName \<Rightarrow>
                              if dollarWithout [''name''] simpleType \<noteq> [] then Inl AssertionError
                              else
                                Inr (typeName,
                                     emptyType\<lparr>content :=
                                       (case content2 of Some c \<Rightarrow> Some c | None \<Rightarrow> content1)\<rparr>))))))"

fun parseSimpleType_each ::
  "string \<Rightarrow> xmlnode list \<Rightarrow> (string \<rightharpoonup> type_entry) \<Rightarrow> error + (string \<rightharpoonup> type_entry)" where
  "parseSimpleType_each namespace [] result = Inr result"
| "parseSimpleType_each namespace (simpleType # rest) result =
     (case parseSimpleType_one namespace simpleType of
        Inl e \<Rightarrow> Inl e
      | Inr (typeName, t) \<Rightarrow> parseSimpleType_each namespace rest (result(typeName \<mapsto> t)))"

definition parseSimpleType ::
  "string \<Rightarrow> xmlnode \<Rightarrow> error + ((string \<rightharpoonup> type_entry) \<times> xmlnode)" where
  "parseSimpleType namespace input =
     (case parseSimpleType_each namespace (tagList input ''simpleType'') Map.empty of
        Inl e \<Rightarrow> Inl e
      | Inr result \<Rightarrow> Inr (result, deleteTag ''simpleType'' input))"

text \<open>
  \<^verbatim>\<open>parseTypesAttribute(namespace, attribute)\<close>: the one entry of the object it
  returns. A reference is stored as \<^verbatim>\<open>{ref: ...}\<close> under the name referred to. A
  declaration has a \<^verbatim>\<open>name\<close>; \<^verbatim>\<open>assert(!result[attributeName])\<close> reads the fresh
  object \<^verbatim>\<open>result\<close>, which has inherited members only; the \<^verbatim>\<open>type\<close> is stored as
  its qualified name, or else the nested \<^verbatim>\<open>simpleType\<close> is given the name
  \<^verbatim>\<open>attributeName + '-type-' + randomString()\<close> (\<open>setName\<close>, which creates the \<^verbatim>\<open>$\<close> of
  a nested type that has none), compiled into the global \<^verbatim>\<open>types\<close>, and that name
  is stored; nothing but an \<^verbatim>\<open>annotation\<close> may be left of the declaration.
\<close>

fun setName :: "string \<Rightarrow> xmlnode list \<Rightarrow> error + xmlnode list" where
  "setName typeName [] = Inr []"
| "setName typeName (XText s # rest) = Inl TypeError"
| "setName typeName (XNode attrs tags # rest) =
     (case setName typeName rest of
        Inl e \<Rightarrow> Inl e
      | Inr rest' \<Rightarrow>
          Inr (XNode (Some (AList.update ''name'' typeName
                              (case attrs of Some a \<Rightarrow> a | None \<Rightarrow> []))) tags # rest'))"

fun setTag :: "string \<Rightarrow> xmlnode list \<Rightarrow> xmlnode \<Rightarrow> xmlnode" where
  "setTag tag nodes (XText s) = XText s"
| "setTag tag nodes (XNode attrs tags) = XNode attrs (AList.update tag nodes tags)"

definition parseTypesAttribute ::
  "string \<Rightarrow> xmlnode \<Rightarrow> compile_state \<Rightarrow> error + ((string \<times> attribute_spec) \<times> compile_state)" where
  "parseTypesAttribute namespace attribute st =
     (case dollar attribute of
        None \<Rightarrow> Inl TypeError
      | Some attrs \<Rightarrow>
          if truthy (map_of attrs ''ref'') then
            (case namespacedName namespace (the (map_of attrs ''ref'')) of
               Inl e \<Rightarrow> Inl e
             | Inr attributeReference \<Rightarrow>
                 Inr ((attributeReference, AttributeRef attributeReference), st))
          else if \<not> truthy (map_of attrs ''name'') then Inl AssertionError
          else
            (case namespacedName namespace (the (map_of attrs ''name'')) of
               Inl e \<Rightarrow> Inl e
             | Inr attributeName \<Rightarrow>
                 if lookupProperty (Map.empty :: string \<rightharpoonup> attribute_spec) attributeName \<noteq> None
                 then Inl AssertionError
                 else if truthy (map_of attrs ''type'') then
                   (case namespacedTypeName namespace (map_of attrs ''type'') of
                      Inl e \<Rightarrow> Inl e
                    | Inr typeName \<Rightarrow>
                        if \<not> isEmptyNode (deleteTag ''annotation'' (deleteDollar attribute))
                        then Inl AssertionError
                        else Inr ((attributeName, AttributeType typeName), st))
                 else
                   (case tagOf attribute ''simpleType'' of
                      None \<Rightarrow> Inl AssertionError
                    | Some simpleTypes \<Rightarrow>
                        (case randomString st of
                           (random, st1) \<Rightarrow>
                             (case setName (attributeName @ ''-type-'' @ random) simpleTypes of
                                Inl e \<Rightarrow> Inl e
                              | Inr named \<Rightarrow>
                                  (case parseSimpleType namespace
                                          (setTag ''simpleType'' named attribute) of
                                     Inl e \<Rightarrow> Inl e
                                   | Inr (newTypes, attribute1) \<Rightarrow>
                                       if \<not> isEmptyNode
                                              (deleteTag ''annotation'' (deleteDollar attribute1))
                                       then Inl AssertionError
                                       else
                                         Inr ((attributeName,
                                               AttributeType (attributeName @ ''-type-'' @ random)),
                                              st1\<lparr>globalTypes := globalTypes st1 ++ newTypes\<rparr>)))))))"

text \<open>
  \<^verbatim>\<open>_.each(attributeNodes, function (attribute) { _.extend(attributes,
  parseTypesAttribute(namespace, attribute)); })\<close>
\<close>

fun parseTypes_attributes ::
  "string \<Rightarrow> xmlnode list \<Rightarrow> (string \<rightharpoonup> attribute_spec) \<Rightarrow> compile_state
     \<Rightarrow> error + ((string \<rightharpoonup> attribute_spec) \<times> compile_state)" where
  "parseTypes_attributes namespace [] attributes_var st = Inr (attributes_var, st)"
| "parseTypes_attributes namespace (attribute # rest) attributes_var st =
     (case parseTypesAttribute namespace attribute st of
        Inl e \<Rightarrow> Inl e
      | Inr ((name, spec), st') \<Rightarrow>
          parseTypes_attributes namespace rest (attributes_var(name \<mapsto> spec)) st')"

text \<open>
  The body of \<^verbatim>\<open>parseTypes\<close> for one \<^verbatim>\<open>complexType\<close>, in the order of the source.
  First the \<^verbatim>\<open>sequence\<close>: its elements, its \<^verbatim>\<open>choice\<close>, and its \<^verbatim>\<open>any\<close>, which
  sets \<^verbatim>\<open>anyChildren\<close> and, from its \<^verbatim>\<open>maxOccurs\<close> or the default, \<^verbatim>\<open>isArray\<close>. The
  result is \<^verbatim>\<open>children\<close> (absent without a \<^verbatim>\<open>sequence\<close>), \<^verbatim>\<open>anyChildren\<close> and
  \<^verbatim>\<open>isArray\<close>.
\<close>

definition parseTypes_any :: "xmlnode \<Rightarrow> bool option \<Rightarrow> error + (bool \<times> bool option)" where
  "parseTypes_any sequence0 isArrayDefault_var =
     (case tagOf sequence0 ''any'' of
        None \<Rightarrow> Inr (False, None)
      | Some anys \<Rightarrow>
          if length anys \<noteq> 1 then Inl AssertionError
          else
            (case dollarAttr (hd anys) ''maxOccurs'' of
               Inl e \<Rightarrow> Inl e
             | Inr maxOccurs \<Rightarrow>
                 Inr (True,
                      if truthy maxOccurs then Some (maxOccursIsArray (the maxOccurs))
                      else isArrayDefault_var)))"

definition parseTypes_sequence ::
  "string \<Rightarrow> xmlnode \<Rightarrow> compile_state
     \<Rightarrow> error + (((string \<rightharpoonup> nat) option \<times> bool \<times> bool option) \<times> compile_state)" where
  "parseTypes_sequence namespace complexType st =
     (case tagOf complexType ''sequence'' of
        None \<Rightarrow> Inr ((None, False, None), st)
      | Some sequence \<Rightarrow>
          if length sequence \<noteq> 1 then Inl AssertionError
          else
            (case occursBlock (hd sequence) of
               Inl e \<Rightarrow> Inl e
             | Inr (isArrayDefault_var, sequence0) \<Rightarrow>
                 (case parseTypes_elements namespace isArrayDefault_var
                         (tagList sequence0 ''element'') Map.empty st of
                    Inl e \<Rightarrow> Inl e
                  | Inr (children1, st1) \<Rightarrow>
                      (case (if tagOf sequence0 ''choice'' \<noteq> None
                             then (case parseTypesChoice namespace
                                          (deleteTag ''element'' sequence0) st1 of
                                     Inl e \<Rightarrow> Inl e
                                   | Inr (chosen, sequence1, st2) \<Rightarrow>
                                       Inr (children1 ++ chosen, sequence1, st2))
                             else Inr (children1, deleteTag ''element'' sequence0, st1)) of
                         Inl e \<Rightarrow> Inl e
                       | Inr (children2, sequence2, st2) \<Rightarrow>
                           (case parseTypes_any sequence2 isArrayDefault_var of
                              Inl e \<Rightarrow> Inl e
                            | Inr (anyChildren_var, isArray_var) \<Rightarrow>
                                if \<not> isEmptyNode (deleteTag ''any'' sequence2)
                                then Inl AssertionError
                                else Inr ((Some children2, anyChildren_var, isArray_var), st2))))))"

text \<open>
  One round of the loop over \<^verbatim>\<open>['simpleContent', 'complexContent']\<close>: the content
  \<^verbatim>\<open>{base, attributes}\<close> of the one \<^verbatim>\<open>extension\<close>, where \<^verbatim>\<open>attributes\<close> is set when
  the extension has \<^verbatim>\<open>attribute\<close> children; no content when the tag is absent.
\<close>

definition parseTypes_anyContent ::
  "string \<Rightarrow> string \<Rightarrow> xmlnode \<Rightarrow> compile_state
     \<Rightarrow> error + (type_content option \<times> compile_state)" where
  "parseTypes_anyContent namespace anyContent complexType st =
     (case tagOf complexType anyContent of
        None \<Rightarrow> Inr (None, st)
      | Some contents \<Rightarrow>
          if length contents \<noteq> 1 then Inl AssertionError
          else
            (case tagOf (hd contents) ''extension'' of
               None \<Rightarrow> Inl TypeError
             | Some extensions \<Rightarrow>
                 if length extensions \<noteq> 1 then Inl AssertionError
                 else
                   (case dollarAttr (hd extensions) ''base'' of
                      Inl e \<Rightarrow> Inl e
                    | Inr b \<Rightarrow>
                        (case namespacedTypeName namespace b of
                           Inl e \<Rightarrow> Inl e
                         | Inr n \<Rightarrow>
                             if dollarWithout [''base''] (hd extensions) \<noteq> []
                             then Inl AssertionError
                             else
                               (case (case tagOf (hd extensions) ''attribute'' of
                                        None \<Rightarrow> Inr (None, st)
                                      | Some attributeNodes \<Rightarrow>
                                          (case parseTypes_attributes namespace attributeNodes
                                                  Map.empty st of
                                             Inl e \<Rightarrow> Inl e
                                           | Inr (attributes_var, st') \<Rightarrow>
                                               Inr (Some attributes_var, st'))) of
                                  Inl e \<Rightarrow> Inl e
                                | Inr (attributes_field, st') \<Rightarrow>
                                    if \<not> isEmptyNode
                                           (deleteTag ''attribute'' (deleteDollar (hd extensions)))
                                    then Inl AssertionError
                                    else
                                      Inr (Some \<lparr>base = Some (Single n),
                                                 attributes = attributes_field\<rparr>, st'))))))"

text \<open>
  The whole body: the \<^verbatim>\<open>sequence\<close>; a \<^verbatim>\<open>choice\<close> of the type itself, which
  replaces \<^verbatim>\<open>children\<close>; the two contents, of which at most one is there, stored as
  \<^verbatim>\<open>type.content\<close>; the \<^verbatim>\<open>attribute\<close> children of the type itself, stored as
  \<^verbatim>\<open>type.attributes\<close>; and the qualified \<^verbatim>\<open>name\<close>, under which \<^verbatim>\<open>newTypes\<close> gets the
  type.
\<close>

definition parseTypes_complexType ::
  "string \<Rightarrow> xmlnode \<Rightarrow> compile_state \<Rightarrow> error + ((string \<times> type_entry) \<times> compile_state)" where
  "parseTypes_complexType namespace complexType st =
     (case parseTypes_sequence namespace complexType st of
        Inl e \<Rightarrow> Inl e
      | Inr ((children1, anyChildren_var, isArray_var), st1) \<Rightarrow>
          (case (if tagOf complexType ''choice'' \<noteq> None
                 then (case parseTypesChoice namespace (deleteTag ''sequence'' complexType) st1 of
                         Inl e \<Rightarrow> Inl e
                       | Inr (chosen, complexType', st2) \<Rightarrow> Inr (Some chosen, st2))
                 else Inr (children1, st1)) of
             Inl e \<Rightarrow> Inl e
           | Inr (children2, st2) \<Rightarrow>
               if tagOf complexType ''simpleContent'' \<noteq> None
                  \<and> tagOf complexType ''complexContent'' \<noteq> None
               then Inl AssertionError
               else
                 (case parseTypes_anyContent namespace ''simpleContent'' complexType st2 of
                    Inl e \<Rightarrow> Inl e
                  | Inr (content1, st3) \<Rightarrow>
                      (case parseTypes_anyContent namespace ''complexContent'' complexType st3 of
                         Inl e \<Rightarrow> Inl e
                       | Inr (content2, st4) \<Rightarrow>
                           (case (case tagOf complexType ''attribute'' of
                                    None \<Rightarrow> Inr (None, st4)
                                  | Some attributeNodes \<Rightarrow>
                                      (case parseTypes_attributes namespace attributeNodes
                                              Map.empty st4 of
                                         Inl e \<Rightarrow> Inl e
                                       | Inr (attributes_var, st') \<Rightarrow>
                                           Inr (Some attributes_var, st'))) of
                              Inl e \<Rightarrow> Inl e
                            | Inr (attributes_field, st5) \<Rightarrow>
                                (case dollarAttr complexType ''name'' of
                                   Inl e \<Rightarrow> Inl e
                                 | Inr name \<Rightarrow>
                                     if \<not> truthy name then Inl AssertionError
                                     else
                                       (case namespacedName namespace (the name) of
                                          Inl e \<Rightarrow> Inl e
                                        | Inr typeName \<Rightarrow>
                                            if dollarWithout [''name''] complexType \<noteq> []
                                            then Inl AssertionError
                                            else
                                              Inr ((typeName,
                                                    \<lparr>parse = None,
                                                     content =
                                                       (case content2 of
                                                          Some c \<Rightarrow> Some c
                                                        | None \<Rightarrow> content1),
                                                     children = children2,
                                                     anyChildren = anyChildren_var,
                                                     isArray = isArray_var,
                                                     attributes = attributes_field\<rparr>),
                                                   st5))))))))"

text \<open>
  \<^verbatim>\<open>parseTypes(namespace, schema)\<close>: the complex types, then the simple types of the
  schema; the schema is left without them, its \<^verbatim>\<open>annotation\<close> and its \<^verbatim>\<open>$\<close>.
\<close>

fun parseTypes_complexTypes ::
  "string \<Rightarrow> xmlnode list \<Rightarrow> (string \<rightharpoonup> type_entry) \<Rightarrow> compile_state
     \<Rightarrow> error + ((string \<rightharpoonup> type_entry) \<times> compile_state)" where
  "parseTypes_complexTypes namespace [] newTypes st = Inr (newTypes, st)"
| "parseTypes_complexTypes namespace (complexType # rest) newTypes st =
     (case parseTypes_complexType namespace complexType st of
        Inl e \<Rightarrow> Inl e
      | Inr ((typeName, t), st') \<Rightarrow>
          parseTypes_complexTypes namespace rest (newTypes(typeName \<mapsto> t)) st')"

definition parseTypes ::
  "string \<Rightarrow> xmlnode \<Rightarrow> compile_state
     \<Rightarrow> error + ((string \<rightharpoonup> type_entry) \<times> xmlnode \<times> compile_state)" where
  "parseTypes namespace schema st =
     (case parseTypes_complexTypes namespace (tagList schema ''complexType'') Map.empty st of
        Inl e \<Rightarrow> Inl e
      | Inr (newTypes, st') \<Rightarrow>
          (case parseSimpleType namespace (deleteTag ''complexType'' schema) of
             Inl e \<Rightarrow> Inl e
           | Inr (simpleTypes, schema') \<Rightarrow>
               Inr (newTypes ++ simpleTypes,
                    deleteDollar (deleteTag ''annotation'' schema'), st')))"

section \<open>Validating the attributes of a node\<close>

text \<open>
  An attribute spec is truthy unless it is the empty type name.
  \<^verbatim>\<open>resolveAttributeType(xpath, typeName)\<close> follows \<^verbatim>\<open>{ref: ...}\<close> specs through
  \<^verbatim>\<open>baseAttributes\<close> to a type name; the loop need not end. A member that
  \<^verbatim>\<open>baseAttributes\<close> only inherits is an object with no \<^verbatim>\<open>ref\<close>, which the
  \<^verbatim>\<open>assert(typeName.ref)\<close> of the next round refuses.
\<close>

definition attributeSpecTruthy :: "attribute_spec \<Rightarrow> bool" where
  "attributeSpecTruthy spec = (case spec of AttributeType t \<Rightarrow> t \<noteq> [] | AttributeRef r \<Rightarrow> True)"

partial_function (option) resolveAttributeType ::
  "(string \<rightharpoonup> attribute_spec) \<Rightarrow> attribute_spec \<Rightarrow> (error + string) option" where
  "resolveAttributeType baseAttributes typeName =
     (case typeName of
        AttributeType t \<Rightarrow> Some (Inr t)
      | AttributeRef r \<Rightarrow>
          if r = [] then Some (Inl AssertionError)
          else
            (case lookupProperty baseAttributes r of
               None \<Rightarrow> Some (Inl (ReferencedAttributeNotFound r))
             | Some (Inherited member) \<Rightarrow> Some (Inl AssertionError)
             | Some (Own next) \<Rightarrow>
                 if \<not> attributeSpecTruthy next then Some (Inl (ReferencedAttributeNotFound r))
                 else resolveAttributeType baseAttributes next))"

text \<open>
  \<^verbatim>\<open>resolveToParse(xpath, typeName)\<close>: the parser of a type that has one, else the
  parsers of its base, or of each base of a union in turn, else none. The recursion
  on a single name and the loop over the bases of a union are one function, on a
  name or on the bases still to do; it need not end.
\<close>

partial_function (option) resolveToParse_rec ::
  "(string \<rightharpoonup> type_entry) \<Rightarrow> string + string list
     \<Rightarrow> (error + (string \<Rightarrow> error + jsval) list) option" where
  "resolveToParse_rec types work =
     (case work of
        Inl typeName \<Rightarrow>
          (case lookupProperty types typeName of
             None \<Rightarrow> Some (Inl (TypeNotFound typeName))
           | Some (Inherited member) \<Rightarrow> Some (Inr [])
           | Some (Own t) \<Rightarrow>
               (case parse t of
                  Some p \<Rightarrow> Some (Inr [p])
                | None \<Rightarrow>
                    (case content t of
                       None \<Rightarrow> Some (Inr [])
                     | Some c \<Rightarrow>
                         (case base c of
                            None \<Rightarrow> Some (Inr [])
                          | Some (Union bases) \<Rightarrow> resolveToParse_rec types (Inr bases)
                          | Some (Single b) \<Rightarrow>
                              if b = [] then Some (Inr [])
                              else resolveToParse_rec types (Inl b)))))
      | Inr [] \<Rightarrow> Some (Inr [])
      | Inr (b # bases) \<Rightarrow>
          Option.bind (resolveToParse_rec types (Inl b))
            (\<lambda>first.
               case first of
                 Inl e \<Rightarrow> Some (Inl e)
               | Inr ps \<Rightarrow>
                   Option.bind (resolveToParse_rec types (Inr bases))
                     (\<lambda>others.
                        case others of
                          Inl e \<Rightarrow> Some (Inl e)
                        | Inr qs \<Rightarrow> Some (Inr (ps @ qs)))))"

definition resolveToParse ::
  "(string \<rightharpoonup> type_entry) \<Rightarrow> string \<Rightarrow> (error + (string \<Rightarrow> error + jsval) list) option" where
  "resolveToParse types typeName = resolveToParse_rec types (Inl typeName)"

text \<open>
  \<^verbatim>\<open>namespacedOrNotName(namespace, name, namespaced)\<close>: the qualified name, or
  \<^verbatim>\<open>name.replace(/^[^:]+:/, '')\<close>, the name without its prefix.
\<close>

definition namespacedOrNotName :: "string \<Rightarrow> string \<Rightarrow> bool \<Rightarrow> error + string" where
  "namespacedOrNotName namespace name namespaced =
     (if namespaced then namespacedName namespace name
      else
        (let prefix = takeWhile (\<lambda>c. c \<noteq> CHR '':'') name
         in if prefix \<noteq> [] \<and> length prefix < length name
            then Inr (drop (Suc (length prefix)) name)
            else Inr name))"

text \<open>
  \<^verbatim>\<open>delete object[name]\<close>; and the text of an attribute value, which is a string or
  an object with the string under \<^verbatim>\<open>value\<close>: \<open>None\<close> when neither is there. (The
  values that xml2js hands over are of these two kinds.)
\<close>

definition deleteProp :: "heap \<Rightarrow> nat \<Rightarrow> string \<Rightarrow> heap" where
  "deleteProp h a name = h[a := AList.delete name (objAt h a)]"

definition attributeText :: "heap \<Rightarrow> jsval \<Rightarrow> error + string option" where
  "attributeText h v =
     (case v of
        Str s \<Rightarrow> Inr (Some s)
      | Undefined \<Rightarrow> Inl TypeError
      | Null \<Rightarrow> Inl TypeError
      | Ref b \<Rightarrow>
          (case getProp (objAt h b) ''value'' of
             Str s \<Rightarrow> Inr (if s = [] then None else Some s)
           | _ \<Rightarrow> Inr None)
      | _ \<Rightarrow> Inr None)"

text \<open>
  The callback of \<^verbatim>\<open>_.each(newValue[attrkey], function (value, attribute) ...)\<close> in
  \<^verbatim>\<open>validator\<close>, for the attributes object at the address \<open>a\<close>. A namespace
  declaration and an \<^verbatim>\<open>xsi:\<close> attribute are deleted; an attribute that
  \<^verbatim>\<open>attributes\<close> does not have is the "Unexpected attribute" error (an inherited
  member passes this test and fails in \<^verbatim>\<open>resolveAttributeType\<close>); any other is
  replaced by its parsed value, under its name without prefix
  (\<^verbatim>\<open>outputWithNamespace\<close> is false).
\<close>

definition attribute_step ::
  "(string \<rightharpoonup> type_entry) \<Rightarrow> (string \<rightharpoonup> attribute_spec) \<Rightarrow> string
     \<Rightarrow> (string \<rightharpoonup> attribute_spec) \<Rightarrow> nat \<Rightarrow> string \<Rightarrow> heap
     \<Rightarrow> (error option \<times> heap) option" where
  "attribute_step types baseAttributes namespace attributes_var a attribute h =
     (case namespacedName namespace attribute of
        Inl e \<Rightarrow> Some (Some e, h)
      | Inr attributeName \<Rightarrow>
          if take 5 attribute = ''xmlns'' then Some (None, deleteProp h a attribute)
          else if take 4 attribute = ''xsi:'' then Some (None, deleteProp h a attribute)
          else
            (case lookupProperty attributes_var attributeName of
               None \<Rightarrow> Some (Some (UnexpectedAttribute attributeName), h)
             | Some (Inherited member) \<Rightarrow> Some (Some AssertionError, h)
             | Some (Own spec) \<Rightarrow>
                 if \<not> attributeSpecTruthy spec
                 then Some (Some (UnexpectedAttribute attributeName), h)
                 else
                   (case resolveAttributeType baseAttributes spec of
                      None \<Rightarrow> None
                    | Some (Inl e) \<Rightarrow> Some (Some e, h)
                    | Some (Inr typeName) \<Rightarrow>
                        (case resolveToParse types typeName of
                           None \<Rightarrow> None
                         | Some (Inl e) \<Rightarrow> Some (Some e, h)
                         | Some (Inr parsers) \<Rightarrow>
                             (case attributeText h (getProp (objAt h a) attribute) of
                                Inl e \<Rightarrow> Some (Some e, h)
                              | Inr None \<Rightarrow> Some (Some (InvalidAttributeValue attributeName), h)
                              | Inr (Some text) \<Rightarrow>
                                  (case namespacedOrNotName namespace attribute False of
                                     Inl e \<Rightarrow> Some (Some e, deleteProp h a attribute)
                                   | Inr outputName \<Rightarrow>
                                       (case tryParse parsers text of
                                          Inl e \<Rightarrow> Some (Some e, deleteProp h a attribute)
                                        | Inr parsed \<Rightarrow>
                                            Some (None,
                                                  setProp (deleteProp h a attribute) a
                                                    outputName parsed))))))))"

text \<open>
  The attribute block of \<^verbatim>\<open>validator\<close>, from \<^verbatim>\<open>if (newValue[attrkey])\<close> to the
  \<^verbatim>\<open>delete newValue[attrkey]\<close> of an attributes object left empty. \<open>lastSegmentType\<close>
  is the type of the node's element, \<open>namespace\<close> the prefix of the node's namespace.
  The attributes of a node are an object, or absent.
\<close>

definition validator_attributes ::
  "(string \<rightharpoonup> type_entry) \<Rightarrow> (string \<rightharpoonup> attribute_spec) \<Rightarrow> string \<Rightarrow> string \<Rightarrow> string
     \<Rightarrow> nat \<Rightarrow> heap \<Rightarrow> (error option \<times> heap) option" where
  "validator_attributes types baseAttributes attrkey namespace lastSegmentType newValue h =
     (case getProp (objAt h newValue) attrkey of
        Ref a \<Rightarrow>
          (case resolveToAttributes types lastSegmentType of
             Inl e \<Rightarrow> Some (Some e, h)
           | Inr attributes_var \<Rightarrow>
               (case each (attribute_step types baseAttributes namespace attributes_var a)
                       (map fst (objAt h a)) h of
                  None \<Rightarrow> None
                | Some (Some e, h') \<Rightarrow> Some (Some e, h')
                | Some (None, h') \<Rightarrow>
                    Some (None,
                          if objAt h' a = [] then deleteProp h' newValue attrkey else h')))
      | _ \<Rightarrow> Some (None, h))"

text \<open>
  The name under which \<^verbatim>\<open>parseTypesAttribute\<close> stores an attribute node, and the
  attributes that the validator deletes without looking them up.
\<close>

definition declaredName :: "string \<Rightarrow> xmlnode \<Rightarrow> string option" where
  "declaredName namespace attribute =
     (case dollar attribute of
        None \<Rightarrow> None
      | Some attrs \<Rightarrow>
          if truthy (map_of attrs ''ref'') then
            (case namespacedName namespace (the (map_of attrs ''ref'')) of
               Inl e \<Rightarrow> None
             | Inr attributeReference \<Rightarrow> Some attributeReference)
          else if truthy (map_of attrs ''name'') then
            (case namespacedName namespace (the (map_of attrs ''name'')) of
               Inl e \<Rightarrow> None
             | Inr attributeName \<Rightarrow> Some attributeName)
          else None)"

definition isSkippedAttribute :: "string \<Rightarrow> bool" where
  "isSkippedAttribute attribute = (take 5 attribute = ''xmlns'' \<or> take 4 attribute = ''xsi:'')"

section \<open>Example registries\<close>

text \<open>A type that extends a base type with an attribute, and declares none itself.\<close>

definition ex_types :: "string \<rightharpoonup> type_entry" where
  "ex_types =
     [''t:Base'' \<mapsto>
        \<lparr>parse = None,
         content = Some \<lparr>base = Some (Single ''string''),
                         attributes = Some [''t:unit'' \<mapsto> AttributeType ''string'']\<rparr>,
         children = None, anyChildren = False, isArray = None, attributes = None\<rparr>,
      ''t:Derived'' \<mapsto>
        \<lparr>parse = None,
         content = Some \<lparr>base = Some (Single ''t:Base''), attributes = None\<rparr>,
         children = None, anyChildren = False, isArray = None, attributes = None\<rparr>]"

text \<open>A child spec that refers to a global element and carries a default.\<close>

definition ex_store :: "element_spec list" where
  "ex_store =
     [\<lparr>ref = Some ''t:item'', type = None, isArray = None, isArrayDefault = Some True\<rparr>,
      \<lparr>ref = None, type = Some ''string'', isArray = None, isArrayDefault = None\<rparr>]"

definition ex_baseElements :: "string \<rightharpoonup> nat" where
  "ex_baseElements = [''t:item'' \<mapsto> 1]"

text \<open>
  Element specs for a repeated \<open>item\<close> and a single \<open>note\<close>, two types over them,
  and a document node with one \<open>note\<close> and two \<open>item\<close>s.
\<close>

definition ex_specs :: "element_spec list" where
  "ex_specs = ex_store @
     [\<lparr>ref = Some ''t:note'', type = None, isArray = None, isArrayDefault = Some False\<rparr>]"

definition ex_globals :: "string \<rightharpoonup> nat" where
  "ex_globals = [''t:item'' \<mapsto> 1, ''t:note'' \<mapsto> 1]"

definition ex_array_type :: type_entry where
  "ex_array_type =
     \<lparr>parse = None, content = None, children = Some [''t:item'' \<mapsto> 0, ''t:note'' \<mapsto> 2],
      anyChildren = False, isArray = None, attributes = None\<rparr>"

definition ex_single_type :: type_entry where
  "ex_single_type =
     \<lparr>parse = None, content = None, children = Some [''t:item'' \<mapsto> 1, ''t:note'' \<mapsto> 2],
      anyChildren = False, isArray = None, attributes = None\<rparr>"

definition ex_document :: heap where
  "ex_document = [[(''note'', Arr [Str ''n'']), (''item'', Arr [Str ''a'', Str ''b''])]]"

text \<open>A prefix table that knows \<^verbatim>\<open>urn:a\<close>, and a parser that has no schema yet.\<close>

definition ex_prefixes :: "string \<rightharpoonup> string" where
  "ex_prefixes = BASE_NAMESPACES(''urn:a'' \<mapsto> ''a'')"

definition ex_parseString :: "string \<Rightarrow> error + (string \<times> xmlnode) list" where
  "ex_parseString body =
     Inr [(''xs:schema'',
           XNode (Some [(''xmlns:xs'', XMLSchema_uri), (''xmlns:a'', ''urn:a''),
                        (''targetNamespace'', ''urn:a'')]) [])]"

definition ex_compile ::
  "string property \<Rightarrow> string \<Rightarrow> string \<Rightarrow> xmlnode \<Rightarrow> unit \<Rightarrow> (error + multivalue) \<times> unit" where
  "ex_compile namespace xsPrefix namespaceUrl schema regs = (Inr emptyMultivalue, regs)"

definition ex_parser :: "unit xsd_parser" where
  "ex_parser = \<lparr>parsedSchemas = emptyMultivalue, namespacePrefixes = BASE_NAMESPACES,
                 registries = ()\<rparr>"

text \<open>
  A schema with one complex type, which declares the attribute \<open>unit\<close> directly, the
  type entry it compiles to, and a node of that type with a namespace declaration and
  the attribute.
\<close>

definition ex_complexType :: xmlnode where
  "ex_complexType =
     XNode (Some [(''name'', ''Measure'')])
       [(''attribute'', [XNode (Some [(''name'', ''unit''), (''type'', ''xs:string'')]) []])]"

definition ex_schema :: xmlnode where
  "ex_schema =
     XNode (Some [(''targetNamespace'', ''urn:t'')]) [(''complexType'', [ex_complexType])]"

definition ex_compile_state :: compile_state where
  "ex_compile_state =
     \<lparr>globalTypes = Map.empty, elementStore = [], randomStrings = (\<lambda>n. ''r''), randomCalls = 0\<rparr>"

definition ex_measure_type :: type_entry where
  "ex_measure_type =
     \<lparr>parse = None, content = None, children = None, anyChildren = False, isArray = None,
      attributes = Some [''t:unit'' \<mapsto> AttributeType ''string'']\<rparr>"

definition ex_measure_node :: heap where
  "ex_measure_node =
     [[(''$'', Ref 1), (''_'', Str ''5'')],
      [(''xmlns:t'', Str ''urn:t''), (''unit'', Str ''kg'')]]"

text \<open>
  A complex type whose sequence holds the element \<open>item\<close>, at most once, and an
  \<^verbatim>\<open>any\<close> without bound; the type entry and the element spec it compiles to; and
  nodes with one and with two \<open>item\<close>s.
\<close>

definition ex_any_complexType :: xmlnode where
  "ex_any_complexType =
     XNode (Some [(''name'', ''Items'')])
       [(''sequence'',
         [XNode None
            [(''element'',
              [XNode (Some [(''name'', ''item''), (''type'', ''xs:string''),
                            (''maxOccurs'', ''1'')]) []]),
             (''any'', [XNode (Some [(''maxOccurs'', ''unbounded'')]) []])]])]"

definition ex_any_store :: "element_spec list" where
  "ex_any_store =
     [\<lparr>ref = None, type = Some ''string'', isArray = Some False, isArrayDefault = None\<rparr>]"

definition ex_any_type :: type_entry where
  "ex_any_type =
     \<lparr>parse = None, content = None, children = Some [''t:item'' \<mapsto> 0],
      anyChildren = True, isArray = Some True, attributes = None\<rparr>"

definition ex_one_item :: heap where
  "ex_one_item = [[(''item'', Arr [Str ''a''])]]"

definition ex_two_items :: heap where
  "ex_two_items = [[(''item'', Arr [Str ''a'', Str ''b''])]]"

section \<open>Properties of property lookup\<close>

lemma lookupProperty_own: "registry name = Some v \<Longrightarrow> lookupProperty registry name = Some (Own v)"
  by (simp add: lookupProperty_def)

section \<open>Properties of the built-in parsers\<close>

lemma toLowerCase_false: "toLowerCase ''false'' = ''false''"
  by (simp add: toLowerCase_def toLowerCase_char_def)

text \<open>
  C1. The boolean parser is asked to return the value the input denotes: true for
  "true" and "1", false for "false" and "0". The code returns whether the lower-cased
  input is one of the four literals, so "false" parses to true.
\<close>

theorem boolean_parse_false_is_true:
  "types_boolean_parse ''false'' = Inr (Bool True)"
  by (simp add: types_boolean_parse_def toLowerCase_false)


text \<open>
  C4. A string that is no boolean literal, and a string with no digit in it, are
  malformed for \<open>boolean\<close> and \<open>integer\<close>; both parsers return a value on them.
\<close>

theorem parsers_return_on_malformed_input:
  "toLowerCase ''maybe'' \<notin> set [''true'', ''false'', ''0'', ''1'']
   \<and> types_boolean_parse ''maybe'' = Inr (Bool False)
   \<and> types_integer_parse ''abc'' = Inr NaN"
  by (simp add: types_boolean_parse_def types_integer_parse_def parseInt_def
      toLowerCase_def toLowerCase_char_def isStrWhiteSpaceChar_def isDigitOfRadix_def
      digitValue_def)

lemma isDigitOfRadix_10: "isDigitOfRadix 10 c \<Longrightarrow> isDecimalDigit c"
  by (auto simp: isDigitOfRadix_def digitValue_def isDecimalDigit_def Let_def
      split: if_splits option.splits)

lemma zero_is_decimal_digit: "isDecimalDigit CHR ''0''"
  by (simp add: isDecimalDigit_def)

lemma take_2_mem: "take 2 S = [a, b] \<Longrightarrow> a \<in> set S"
  by (cases S) auto

lemma parseInt_no_digit:
  assumes "\<forall>c \<in> set v. \<not> isDecimalDigit c"
  shows "parseInt v = NaN"
proof -
  define S0 where "S0 = dropWhile isStrWhiteSpaceChar v"
  define S1 where "S1 = (if take 1 S0 = ''+'' \<or> take 1 S0 = ''-'' then drop 1 S0 else S0)"
  have sub0: "set S0 \<subseteq> set v"
    unfolding S0_def by (rule set_dropWhileD [THEN subsetI])
  have sub1: "set S1 \<subseteq> set S0"
    unfolding S1_def by (auto dest: in_set_dropD)
  have nodigit: "\<forall>c \<in> set S1. \<not> isDecimalDigit c"
    using assms sub0 sub1 by blast
  have nohex: "\<not> (take 2 S1 = ''0x'' \<or> take 2 S1 = ''0X'')"
    using nodigit zero_is_decimal_digit by (auto dest: take_2_mem)
  have nodigits: "takeWhile (isDigitOfRadix 10) S1 = []"
    using nodigit by (cases S1) (auto dest: isDigitOfRadix_10)
  have "parseInt v =
      (let hex = (take 2 S1 = ''0x'' \<or> take 2 S1 = ''0X'');
           R = (if hex then 16 else 10);
           Z = takeWhile (isDigitOfRadix R) (if hex then drop 2 S1 else S1)
       in if Z = [] then NaN
          else numberValue (if take 1 S0 = ''-'' then - 1 else 1) (digitsValue R Z))"
    unfolding parseInt_def S0_def S1_def Let_def ..
  then show ?thesis
    using nohex nodigits by (simp add: Let_def)
qed

text \<open>
  C4, as the code has it, for the \<open>string\<close>, \<open>boolean\<close> and \<open>integer\<close> parsers (and
  the types that share them): none of them throws. On every string the \<open>string\<close>
  parser returns the string, the \<open>boolean\<close> parser returns a boolean and the
  \<open>integer\<close> parser returns a value, which is \<open>NaN\<close> for a string with no decimal
  digit in it.
\<close>

theorem boolean_integer_parse_never_raise:
  "types_string_parse v = Inr (Str v)
   \<and> (\<exists>b. types_boolean_parse v = Inr (Bool b))
   \<and> (\<exists>r. types_integer_parse v = Inr r)
   \<and> ((\<forall>c \<in> set v. \<not> isDecimalDigit c) \<longrightarrow> types_integer_parse v = Inr NaN)"
  by (simp add: types_string_parse_def types_boolean_parse_def types_integer_parse_def
      parseInt_no_digit)

theorem boolean_integer_parse_never_raise_witness:
  "types_string_parse ''abc'' = Inr (Str ''abc'')
   \<and> (\<exists>b. types_boolean_parse ''maybe'' = Inr (Bool b))
   \<and> (\<exists>r. types_integer_parse ''abc'' = Inr r)
   \<and> types_integer_parse ''abc'' = Inr NaN"
proof -
  have "\<forall>c \<in> set ''abc''. \<not> isDecimalDigit c"
    by (simp add: isDecimalDigit_def)
  then show ?thesis
    using boolean_integer_parse_never_raise [of "''maybe''"]
      boolean_integer_parse_never_raise [of "''abc''"]
    by blast
qed

section \<open>Properties of trial parsing\<close>

lemma tryParse_loop_eq:
  "tryParse_loop parsers v i exception =
     (if i < length parsers then (parsers ! 0) v
      else (case exception of None \<Rightarrow> Inl AssertionError | Some e \<Rightarrow> Inl e))"
proof (induction parsers v i exception rule: tryParse_loop.induct)
  case (1 parsers v i exception)
  show ?case
  proof (cases "i < length parsers")
    case False
    then show ?thesis by simp
  next
    case True
    show ?thesis
    proof (cases "(parsers ! 0) v")
      case (Inr r)
      with True show ?thesis by simp
    next
      case (Inl e)
      with True "1.IH" [OF True Inl] show ?thesis by simp
    qed
  qed
qed

lemma tryParse_eq:
  "tryParse parsers v = (case parsers of [] \<Rightarrow> Inl AssertionError | p # ps \<Rightarrow> p v)"
  unfolding tryParse_def by (subst tryParse_loop_eq) (simp split: list.splits)

lemma tryParse_spec_loop_first:
  "p v = Inl e \<Longrightarrow> q v = Inr r \<Longrightarrow> tryParse_spec [p, q] v = Inr r"
  by (simp add: tryParse_spec_def)

text \<open>
  C2. Trial parsing is asked to call the i-th parser on the i-th attempt. The loop
  calls \<^verbatim>\<open>parse[0]\<close> on every attempt: with a first parser that throws and a second
  that accepts, the code throws the first parser's error, where trying the parsers
  in turn returns the second parser's result.
\<close>

theorem tryParse_calls_only_first_parser:
  "tryParse [\<lambda>s. Inl TypeError, types_string_parse] ''zz'' = Inl TypeError
   \<and> tryParse_spec [\<lambda>s. Inl TypeError, types_string_parse] ''zz'' = Inr (Str ''zz'')"
  by (simp add: tryParse_eq tryParse_spec_def types_string_parse_def)

section \<open>Properties of the resolution helpers\<close>

text \<open>
  C7. The claim lets \<^verbatim>\<open>resolveToAttributes\<close> return the deepest non-empty attributes
  map of the base chain. For a type that extends a base with attributes and declares
  none, the only attributes map of the chain is the base's, and the code returns the
  empty map.
\<close>
theorem resolveToAttributes_ignores_base_chain:
  "resolveToAttributes ex_types ''t:Derived'' = Inr Map.empty
   \<and> attributesAlongChain 2 ex_types ''t:Derived'' = [[''t:unit'' \<mapsto> AttributeType ''string'']]
   \<and> [''t:unit'' \<mapsto> AttributeType ''string''] \<noteq> Map.empty"
  by (simp add: resolveToAttributes_def lookupProperty_def ex_types_def numeral_2_eq_2)


text \<open>
  C7, as the code has it: for a type of the registry the result is the attributes map
  of the type's own content, empty when the type has no content or its content has no
  attributes; no other entry of the registry is read. An unknown type is an error,
  unless its name is one that the registry inherits, for which the result is empty.
\<close>

theorem resolveToAttributes_own_content:
  "(types typeName = Some t \<longrightarrow>
      resolveToAttributes types typeName = Inr (ownContentAttributes t)
      \<and> (\<forall>types'. types' typeName = Some t \<longrightarrow>
            resolveToAttributes types' typeName = resolveToAttributes types typeName))
   \<and> (types typeName = None \<longrightarrow>
        resolveToAttributes types typeName =
          (if typeName \<in> set objectPrototypeNames then Inr Map.empty
           else Inl (TypeNotFound typeName)))"
  by (auto simp: resolveToAttributes_def lookupProperty_def ownContentAttributes_def
      split: option.splits)

theorem resolveToAttributes_own_content_witness:
  "ex_types ''t:Derived'' \<noteq> None
   \<and> resolveToAttributes ex_types ''t:Derived'' = Inr Map.empty
   \<and> resolveToAttributes ex_types ''t:Missing'' = Inl (TypeNotFound ''t:Missing'')"
  using resolveToAttributes_own_content [of ex_types "''t:Derived''" "the (ex_types ''t:Derived'')"]
    resolveToAttributes_own_content [of ex_types "''t:Missing''"]
  by (simp add: ex_types_def ownContentAttributes_def objectPrototypeNames_def)

lemma resolveElement_loop_chain:
  "refChain store baseElements path \<Longrightarrow>
     resolveElement_loop store baseElements d (hd path)
       = Some (Inr (scopeDefault store d path, Own (last path)))"
proof (induction store baseElements path arbitrary: d rule: refChain.induct)
  case (1 store baseElements)
  then show ?case by simp
next
  case (2 store baseElements e)
  then show ?case by (subst resolveElement_loop.simps) simp
next
  case (3 store baseElements e e' es)
  then show ?case by (subst resolveElement_loop.simps) (simp add: lookupProperty_own)
qed

lemma refChain_last: "refChain store baseElements path \<Longrightarrow> last path < length store \<and> \<not> hasRef (store ! last path)"
  by (induction store baseElements path rule: refChain.induct) auto

text \<open>
  C8. Along a reference chain \<^verbatim>\<open>resolveElement\<close> returns, and returns the terminal
  spec; when the terminal spec has no \<open>isArray\<close> and a default is in scope, it returns
  a fresh copy of the terminal spec with \<open>isArray\<close> set to the default. No spec that
  was in the store changes.
\<close>

theorem resolveElement_chain:
  assumes "refChain store baseElements path"
  shows "\<exists>r store'.
      resolveElement store baseElements (hd path) = Some (Inr (Own r), store')
      \<and> (\<forall>a < length store. store' ! a = store ! a)
      \<and> (if element_spec.isArray (store ! last path) = None \<and> scopeDefault store None path \<noteq> None
          then r = length store
               \<and> store' ! r = (store ! last path)\<lparr>element_spec.isArray := scopeDefault store None path\<rparr>
          else r = last path \<and> store' = store)"
  using resolveElement_loop_chain [OF assms, of None]
  by (auto simp: resolveElement_def nth_append split: option.splits)

theorem resolveElement_chain_witness:
  "refChain ex_store ex_baseElements [0, 1]
   \<and> (\<exists>r store'. resolveElement ex_store ex_baseElements 0 = Some (Inr (Own r), store')
         \<and> r = 2
         \<and> store' ! r = \<lparr>ref = None, type = Some ''string'', isArray = Some True,
                           isArrayDefault = None\<rparr>
         \<and> store' ! 1 = ex_store ! 1)"
proof -
  have c: "refChain ex_store ex_baseElements [0, 1]"
    by (simp add: ex_store_def ex_baseElements_def hasRef_def)
  from resolveElement_chain [OF c] obtain r store' where
    res: "resolveElement ex_store ex_baseElements (hd [0, 1]) = Some (Inr (Own r), store')" and
    frame: "\<forall>a < length ex_store. store' ! a = ex_store ! a" and
    shape: "if element_spec.isArray (ex_store ! last [0, 1]) = None
               \<and> scopeDefault ex_store None [0, 1] \<noteq> None
            then r = length ex_store
               \<and> store' ! r = (ex_store ! last [0, 1])
                    \<lparr>element_spec.isArray := scopeDefault ex_store None [0, 1]\<rparr>
            else r = last [0, 1] \<and> store' = ex_store"
    by blast
  have len: "length ex_store = 2"
    by (simp add: ex_store_def)
  have "r = 2 \<and> store' ! r = \<lparr>ref = None, type = Some ''string'', isArray = Some True,
                           isArrayDefault = None\<rparr>"
    using shape by (auto simp: ex_store_def)
  moreover have "store' ! 1 = ex_store ! 1"
    using frame len by simp
  moreover have "resolveElement ex_store ex_baseElements 0 = Some (Inr (Own r), store')"
    using res by simp
  ultimately show ?thesis
    using c by blast
qed

section \<open>Properties of collapsing child groups\<close>

lemma objAt_append_old: "a < length h \<Longrightarrow> objAt (h @ hs) a = objAt h a"
  by (simp add: objAt_def nth_append)

lemma objAt_append_new: "objAt (h @ [obj]) (length h) = obj"
  by (simp add: objAt_def)

lemma getProp_update_same: "getProp (AList.update name x obj) name = x"
  by (simp add: getProp_def update_conv')

lemma getProp_update_other:
  "k \<noteq> name \<Longrightarrow> getProp (AList.update name x obj) k = getProp obj k"
  by (simp add: getProp_def update_conv')

lemma getProp_Arr_key: "getProp obj name = Arr xs \<Longrightarrow> name \<in> set (map fst obj)"
  by (auto simp: getProp_def split: option.splits dest: map_of_SomeD intro: rev_image_eqI)

lemma getProp_Arr_allocated: "getProp (objAt h a) name = Arr xs \<Longrightarrow> a < length h"
  by (cases "a < length h") (simp_all add: objAt_def getProp_def)

lemma setProp_length: "length (setProp h a name x) = length h"
  by (simp add: setProp_def)

lemma setProp_other_address: "b \<noteq> a \<Longrightarrow> setProp h a name x ! b = h ! b"
  by (simp add: setProp_def)

lemma setProp_other_key:
  "k \<noteq> name \<Longrightarrow> getProp (objAt (setProp h a name x) a) k = getProp (objAt h a) k"
  by (simp add: setProp_def objAt_def getProp_update_other)

lemma setProp_same_key:
  "a < length h \<Longrightarrow> getProp (objAt (setProp h a name x) a) name = x"
  by (simp add: setProp_def objAt_def getProp_update_same)

lemma removeArray_writesOwnKey:
  assumes "removeArray h v n = (r, h')"
  shows "length h' = length h \<and> (\<forall>b. b \<noteq> v \<longrightarrow> h' ! b = h ! b)
         \<and> (\<forall>k. k \<noteq> n \<longrightarrow> getProp (objAt h' v) k = getProp (objAt h v) k)"
  using assms
  by (auto simp: removeArray_def Let_def setProp_length setProp_other_address setProp_other_key
      split: sum.splits if_splits)

lemma anyChildren_step_writesOwnKey:
  "writesOwnKey (anyChildren_step attrkey charkey xmlnskey t v) v"
  unfolding writesOwnKey_def anyChildren_step_def
  using removeArray_writesOwnKey by (auto split: if_splits)

lemma children_step_writesOwnKey:
  "writesOwnKey (children_step store baseElements attrkey charkey xmlnskey namespace cs v) v"
  unfolding writesOwnKey_def children_step_def
  using removeArray_writesOwnKey
  by (auto split: if_splits sum.splits option.splits property.splits)

lemma each_frame:
  assumes "writesOwnKey iterator v" and "each iterator names h = Some (r, h')"
  shows "length h' = length h \<and> (\<forall>b. b \<noteq> v \<longrightarrow> h' ! b = h ! b)"
  using assms(2)
proof (induction names arbitrary: h)
  case Nil
  then show ?case by simp
next
  case (Cons n names)
  show ?case
  proof (cases "iterator n h")
    case None
    with Cons.prems show ?thesis by simp
  next
    case (Some p)
    obtain r1 h1 where p: "p = (r1, h1)" by (cases p)
    have step: "length h1 = length h \<and> (\<forall>b. b \<noteq> v \<longrightarrow> h1 ! b = h ! b)"
      using assms(1) Some p unfolding writesOwnKey_def by blast
    show ?thesis
    proof (cases r1)
      case None
      with Cons.prems Some p have "each iterator names h1 = Some (r, h')" by simp
      from Cons.IH [OF this] step show ?thesis by simp
    next
      case (Some e)
      with Cons.prems \<open>iterator n h = Some p\<close> p have "h' = h1" by simp
      with step show ?thesis by simp
    qed
  qed
qed

lemma each_other_key:
  assumes "writesOwnKey iterator v" and "each iterator names h = Some (r, h')"
    and "name \<notin> set names"
  shows "getProp (objAt h' v) name = getProp (objAt h v) name"
  using assms(2,3)
proof (induction names arbitrary: h)
  case Nil
  then show ?case by simp
next
  case (Cons n names)
  show ?case
  proof (cases "iterator n h")
    case None
    with Cons.prems show ?thesis by simp
  next
    case (Some p)
    obtain r1 h1 where p: "p = (r1, h1)" by (cases p)
    have step: "getProp (objAt h1 v) name = getProp (objAt h v) name"
      using assms(1) Some p Cons.prems(2) unfolding writesOwnKey_def by auto
    show ?thesis
    proof (cases r1)
      case None
      with Cons.prems Some p have "each iterator names h1 = Some (r, h')" by simp
      from Cons.IH [OF this] Cons.prems(2) step show ?thesis by simp
    next
      case (Some e)
      with Cons.prems \<open>iterator n h = Some p\<close> p have "h' = h1" by simp
      with step show ?thesis by simp
    qed
  qed
qed


lemma removeArray_Arr:
  assumes "getProp (objAt h v) name = Arr xs"
  shows "removeArray h v name =
     (if length xs = 1 then (None, setProp h v name (hd xs)) else (Some AssertionError, h))"
  using assms by (cases xs) (simp_all add: removeArray_def lengthOf_def index0_def)

lemma each_collapses:
  assumes own: "writesOwnKey iterator v"
    and at_name: "\<And>h. getProp (objAt h v) name = Arr xs \<Longrightarrow>
                    iterator name h = Some (removeArray h v name)"
    and run: "each iterator names h = Some (None, h')"
    and "distinct names" and "name \<in> set names"
    and "getProp (objAt h v) name = Arr xs"
  shows "\<exists>x. xs = [x] \<and> getProp (objAt h' v) name = x"
  using run assms(4-)
proof (induction names arbitrary: h)
  case Nil
  then show ?case by simp
next
  case (Cons n names)
  show ?case
  proof (cases "iterator n h")
    case None
    with Cons.prems show ?thesis by simp
  next
    case (Some p)
    obtain r1 h1 where p: "p = (r1, h1)" by (cases p)
    from Cons.prems(1) Some p have r1: "r1 = None" and rest: "each iterator names h1 = Some (None, h')"
      by (auto split: option.splits)
    show ?thesis
    proof (cases "n = name")
      case True
      have alloc: "v < length h"
        using Cons.prems(4) by (rule getProp_Arr_allocated)
      from at_name [OF Cons.prems(4)] Some p r1 True
      have ra: "removeArray h v name = (None, h1)" by simp
      with removeArray_Arr [OF Cons.prems(4)]
      have one: "length xs = 1" and h1: "h1 = setProp h v name (hd xs)"
        by (auto split: if_splits)
      from one obtain x where xs: "xs = [x]"
        by (cases xs) auto
      have "getProp (objAt h1 v) name = x"
        using h1 xs alloc by (simp add: setProp_same_key)
      moreover have "name \<notin> set names"
        using Cons.prems(2) True by simp
      ultimately have "getProp (objAt h' v) name = x"
        using each_other_key [OF own rest] by simp
      with xs show ?thesis by simp
    next
      case False
      have "getProp (objAt h1 v) name = Arr xs"
        using own Some p False Cons.prems(4) unfolding writesOwnKey_def by auto
      moreover have "distinct names" "name \<in> set names"
        using Cons.prems(2,3) False by auto
      ultimately show ?thesis
        using Cons.IH [OF rest] by blast
    qed
  qed
qed

lemma each_fails:
  assumes own: "writesOwnKey iterator v"
    and returns: "\<And>n h. iterator n h \<noteq> None"
    and at_name: "\<And>h. getProp (objAt h v) name = Arr xs \<Longrightarrow>
                    iterator name h = Some (removeArray h v name)"
    and "name \<in> set names" and "getProp (objAt h v) name = Arr xs" and "2 \<le> length xs"
  shows "\<exists>e h'. each iterator names h = Some (Some e, h')"
  using assms(4,5)
proof (induction names arbitrary: h)
  case Nil
  then show ?case by simp
next
  case (Cons n names)
  from returns [of n h] obtain r1 h1 where step: "iterator n h = Some (r1, h1)"
    by (cases "iterator n h") auto
  show ?case
  proof (cases r1)
    case (Some e)
    with step show ?thesis by simp
  next
    case None
    have "n \<noteq> name"
    proof
      assume "n = name"
      with at_name [OF Cons.prems(2)] step None
      have "removeArray h v name = (None, h1)" by simp
      with removeArray_Arr [OF Cons.prems(2)] assms(6) show False
        by (auto split: if_splits)
    qed
    then have "name \<in> set names"
      using Cons.prems(1) by auto
    moreover have "getProp (objAt h1 v) name = Arr xs"
      using own step \<open>n \<noteq> name\<close> Cons.prems(2) unfolding writesOwnKey_def by auto
    ultimately obtain e h' where "each iterator names h1 = Some (Some e, h')"
      using Cons.IH by blast
    with step None show ?thesis by simp
  qed
qed


lemma anyChildren_step_at_name:
  assumes "anyChildren t" and "governedAsSingle store baseElements namespace t name"
    and "\<not> isReservedKey attrkey charkey xmlnskey name"
  shows "anyChildren_step attrkey charkey xmlnskey t v name h = Some (removeArray h v name)"
  using assms by (simp add: anyChildren_step_def governedAsSingle_def childSpecIsNotArray_def)

lemma children_step_at_name:
  assumes "\<not> anyChildren t" and "children t = Some cs"
    and "governedAsSingle store baseElements namespace t name"
    and "\<not> isReservedKey attrkey charkey xmlnskey name"
  shows "children_step store baseElements attrkey charkey xmlnskey namespace cs v name h
           = Some (removeArray h v name)"
  using assms
  by (auto simp: children_step_def governedAsSingle_def childSpecIsNotArray_def lookupProperty_def
      split: sum.splits option.splits)

lemma anyChildren_step_returns: "anyChildren_step attrkey charkey xmlnskey t v n h \<noteq> None"
  by (simp add: anyChildren_step_def)

lemma children_step_returns:
  assumes "\<forall>n spec. cs n = Some spec \<longrightarrow> resolveElement store baseElements spec \<noteq> None"
  shows "children_step store baseElements attrkey charkey xmlnskey namespace cs v n h \<noteq> None"
proof -
  have "resolveElement_isArray store baseElements spec \<noteq> None" if "cs k = Some spec" for k spec
    using assms that
    by (auto simp: resolveElement_isArray_def
        split: option.splits sum.splits prod.splits property.splits)
  then have "\<forall>k spec. cs k = Some spec \<longrightarrow>
               (\<exists>y. resolveElement_isArray store baseElements spec = Some y)"
    by auto
  then show ?thesis
    unfolding children_step_def lookupProperty_def
    by (fastforce split: sum.splits option.splits)
qed

lemma tryRemoveArrays_trial_frame:
  assumes "tryRemoveArrays_trial store baseElements attrkey charkey xmlnskey namespace t
             newValue h = Some (outcome, h')"
  shows "length h' = Suc (length h) \<and> (\<forall>a < length h. h' ! a = h ! a)
         \<and> (\<forall>v. outcome = Inr v \<longrightarrow> v = length h)"
proof -
  let ?h1 = "h @ [objAt h newValue]"
  let ?v = "length h"
  have base: "length ?h1 = Suc (length h) \<and> (\<forall>a < length h. ?h1 ! a = h ! a)"
    by (simp add: nth_append)
  have via_each: "length h2 = Suc (length h) \<and> (\<forall>a < length h. h2 ! a = h ! a)"
    if "writesOwnKey iterator ?v" and "each iterator names ?h1 = Some (r, h2)"
    for iterator names r h2
    using each_frame [OF that] by (simp add: nth_append)
  show ?thesis
  proof (cases "anyChildren t")
    case True
    with assms base via_each [OF anyChildren_step_writesOwnKey] show ?thesis
      by (auto simp: tryRemoveArrays_trial_def clone_def
          split: if_splits option.splits prod.splits)
  next
    case False
    with assms base via_each [OF children_step_writesOwnKey] show ?thesis
      by (auto simp: tryRemoveArrays_trial_def clone_def
          split: if_splits option.splits prod.splits)
  qed
qed

lemma tryRemoveArrays_trial_collapses:
  assumes run: "tryRemoveArrays_trial store baseElements attrkey charkey xmlnskey namespace t
             newValue h = Some (Inr v, h')"
    and dist: "distinct (map fst (objAt h newValue))"
    and group: "getProp (objAt h newValue) name = Arr xs"
    and unreserved: "\<not> isReservedKey attrkey charkey xmlnskey name"
    and single: "governedAsSingle store baseElements namespace t name"
  shows "\<exists>x. xs = [x] \<and> getProp (objAt h' v) name = x"
proof -
  let ?h1 = "h @ [objAt h newValue]"
  let ?v = "length h"
  have obj: "objAt ?h1 ?v = objAt h newValue"
    by (rule objAt_append_new)
  have key: "name \<in> set (map fst (objAt ?h1 ?v))"
    using getProp_Arr_key [OF group] obj by simp
  have group1: "getProp (objAt ?h1 ?v) name = Arr xs"
    using group obj by simp
  have dist1: "distinct (map fst (objAt ?h1 ?v))"
    using dist obj by simp
  show ?thesis
  proof (cases "anyChildren t")
    case True
    with run have v: "v = ?v"
      and e: "each (anyChildren_step attrkey charkey xmlnskey t ?v)
                (map fst (objAt ?h1 ?v)) ?h1 = Some (None, h')"
      by (auto simp: tryRemoveArrays_trial_def clone_def
          split: if_splits option.splits prod.splits)
    from each_collapses [OF anyChildren_step_writesOwnKey
        anyChildren_step_at_name [OF True single unreserved] e dist1 key group1] v
    show ?thesis by simp
  next
    case False
    with run obtain cs where cs: "children t = Some cs" and v: "v = ?v"
      and e: "each (children_step store baseElements attrkey charkey xmlnskey namespace cs ?v)
                (map fst (objAt ?h1 ?v)) ?h1 = Some (None, h')"
      by (auto simp: tryRemoveArrays_trial_def clone_def
          split: if_splits option.splits prod.splits)
    from each_collapses [OF children_step_writesOwnKey
        children_step_at_name [OF False cs single unreserved] e dist1 key group1] v
    show ?thesis by simp
  qed
qed

lemma tryRemoveArrays_trial_fails:
  assumes group: "getProp (objAt h newValue) name = Arr xs" and many: "2 \<le> length xs"
    and unreserved: "\<not> isReservedKey attrkey charkey xmlnskey name"
    and single: "governedAsSingle store baseElements namespace t name"
    and resolves: "\<forall>cs n spec. children t = Some cs \<longrightarrow> cs n = Some spec \<longrightarrow>
                     resolveElement store baseElements spec \<noteq> None"
  shows "\<exists>e h'. tryRemoveArrays_trial store baseElements attrkey charkey xmlnskey namespace t
             newValue h = Some (Inl e, h')"
proof -
  let ?h1 = "h @ [objAt h newValue]"
  let ?v = "length h"
  have obj: "objAt ?h1 ?v = objAt h newValue"
    by (rule objAt_append_new)
  have key: "name \<in> set (map fst (objAt ?h1 ?v))"
    using getProp_Arr_key [OF group] obj by simp
  have group1: "getProp (objAt ?h1 ?v) name = Arr xs"
    using group obj by simp
  show ?thesis
  proof (cases "anyChildren t")
    case True
    from each_fails [OF anyChildren_step_writesOwnKey anyChildren_step_returns
        anyChildren_step_at_name [OF True single unreserved] key group1 many]
    obtain e h' where "each (anyChildren_step attrkey charkey xmlnskey t ?v)
                (map fst (objAt ?h1 ?v)) ?h1 = Some (Some e, h')"
      by blast
    with True show ?thesis
      by (auto simp: tryRemoveArrays_trial_def clone_def)
  next
    case False
    with single obtain cs where cs: "children t = Some cs"
      by (auto simp: governedAsSingle_def childSpecIsNotArray_def split: option.splits)
    have r: "\<forall>n spec. cs n = Some spec \<longrightarrow> resolveElement store baseElements spec \<noteq> None"
      using resolves cs by blast
    from each_fails [OF children_step_writesOwnKey children_step_returns [OF r]
        children_step_at_name [OF False cs single unreserved] key group1 many]
    obtain e h' where "each (children_step store baseElements attrkey charkey xmlnskey namespace cs ?v)
                (map fst (objAt ?h1 ?v)) ?h1 = Some (Some e, h')"
      by blast
    with False cs show ?thesis
      by (auto simp: tryRemoveArrays_trial_def clone_def)
  qed
qed


lemma tryRemoveArrays_loop_frame:
  "tryRemoveArrays_loop store baseElements attrkey charkey xmlnskey namespace types newValue
       i exception h = Some (outcome, h')
   \<Longrightarrow> length h \<le> length h' \<and> (\<forall>a < length h. h' ! a = h ! a)"
proof (induction store baseElements attrkey charkey xmlnskey namespace types newValue
    i exception h rule: tryRemoveArrays_loop.induct)
  case (1 store baseElements attrkey charkey xmlnskey namespace types newValue i exception h)
  show ?case
  proof (cases "i < length types")
    case False
    with "1.prems" show ?thesis
      by (auto split: option.splits)
  next
    case True
    from "1.prems" True obtain r1 h1 where
      trial: "tryRemoveArrays_trial store baseElements attrkey charkey xmlnskey namespace
                (types ! i) newValue h = Some (r1, h1)"
      by (cases "tryRemoveArrays_trial store baseElements attrkey charkey xmlnskey namespace
                (types ! i) newValue h") auto
    note fr = tryRemoveArrays_trial_frame [OF trial]
    show ?thesis
    proof (cases r1)
      case (Inr v)
      with "1.prems" True trial have "h' = h1" by simp
      with fr show ?thesis by simp
    next
      case (Inl e)
      with "1.prems" True trial have rest:
        "tryRemoveArrays_loop store baseElements attrkey charkey xmlnskey namespace types
           newValue (i + 1) (Some e) h1 = Some (outcome, h')"
        by simp
      from "1.IH" [OF True trial refl Inl rest] fr show ?thesis
        by auto
    qed
  qed
qed



lemma trial_keeps_input:
  assumes "tryRemoveArrays_trial store baseElements attrkey charkey xmlnskey namespace t
             newValue h = Some (outcome, h1)"
    and "newValue < length h"
  shows "newValue < length h1 \<and> objAt h1 newValue = objAt h newValue"
  using tryRemoveArrays_trial_frame [OF assms(1)] assms(2) by (simp add: objAt_def)

lemma tryRemoveArrays_loop_outcome:
  "tryRemoveArrays_loop store baseElements attrkey charkey xmlnskey namespace types newValue
       i exception h = Some (result, h')
   \<Longrightarrow> i < length types
   \<Longrightarrow> \<exists>j hj. i \<le> j \<and> j < length types
         \<and> length h \<le> length hj \<and> (\<forall>a < length h. hj ! a = h ! a)
         \<and> tryRemoveArrays_trial store baseElements attrkey charkey xmlnskey namespace
               (types ! j) newValue hj = Some (result, h')"
proof (induction store baseElements attrkey charkey xmlnskey namespace types newValue
    i exception h rule: tryRemoveArrays_loop.induct)
  case (1 store baseElements attrkey charkey xmlnskey namespace types newValue i exception h)
  note True = "1.prems"(2)
  from "1.prems"(1) True obtain r1 h1 where
    trial: "tryRemoveArrays_trial store baseElements attrkey charkey xmlnskey namespace
              (types ! i) newValue h = Some (r1, h1)"
    by (cases "tryRemoveArrays_trial store baseElements attrkey charkey xmlnskey namespace
              (types ! i) newValue h") auto
  note fr = tryRemoveArrays_trial_frame [OF trial]
  have here: ?case if "r1 = result" "h1 = h'"
  proof -
    have "i \<le> i \<and> i < length types \<and> length h \<le> length h \<and> (\<forall>a < length h. h ! a = h ! a)
         \<and> tryRemoveArrays_trial store baseElements attrkey charkey xmlnskey namespace
               (types ! i) newValue h = Some (result, h')"
      using True trial that by simp
    then show ?thesis by blast
  qed
  show ?case
  proof (cases r1)
    case (Inr v)
    with "1.prems"(1) True trial have "r1 = result" "h1 = h'" by simp_all
    then show ?thesis by (rule here)
  next
    case (Inl e)
    with "1.prems"(1) True trial have rest:
      "tryRemoveArrays_loop store baseElements attrkey charkey xmlnskey namespace types
         newValue (i + 1) (Some e) h1 = Some (result, h')"
      by simp
    show ?thesis
    proof (cases "i + 1 < length types")
      case False
      with rest Inl have "r1 = result" "h1 = h'" by simp_all
      then show ?thesis by (rule here)
    next
      case next_trial: True
      from "1.IH" [OF True trial refl Inl rest next_trial] obtain j hj where
        j: "i + 1 \<le> j" "j < length types" and
        ext: "length h1 \<le> length hj" "\<forall>a < length h1. hj ! a = h1 ! a" and
        run: "tryRemoveArrays_trial store baseElements attrkey charkey xmlnskey namespace
               (types ! j) newValue hj = Some (result, h')"
        by blast
      have "i \<le> j" using j(1) by simp
      moreover have "length h \<le> length hj" using fr ext(1) by simp
      moreover have "\<forall>a < length h. hj ! a = h ! a" using fr ext(2) by simp
      ultimately show ?thesis using j(2) run by blast
    qed
  qed
qed

lemma tryRemoveArrays_loop_fails:
  "getProp (objAt h newValue) name = Arr xs
   \<Longrightarrow> 2 \<le> length xs
   \<Longrightarrow> \<not> isReservedKey attrkey charkey xmlnskey name
   \<Longrightarrow> \<forall>t \<in> set types. governedAsSingle store baseElements namespace t name
   \<Longrightarrow> \<forall>t \<in> set types. \<forall>cs n spec. children t = Some cs \<longrightarrow> cs n = Some spec \<longrightarrow>
         resolveElement store baseElements spec \<noteq> None
   \<Longrightarrow> \<exists>e h'. tryRemoveArrays_loop store baseElements attrkey charkey xmlnskey namespace
         types newValue i exception h = Some (Inl e, h')"
proof (induction store baseElements attrkey charkey xmlnskey namespace types newValue
    i exception h rule: tryRemoveArrays_loop.induct)
  case (1 store baseElements attrkey charkey xmlnskey namespace types newValue i exception h)
  show ?case
  proof (cases "i < length types")
    case False
    then show ?thesis
      by (cases exception) simp_all
  next
    case True
    then have mem: "types ! i \<in> set types" by simp
    from tryRemoveArrays_trial_fails [OF "1.prems"(1,2,3), of store baseElements namespace
        "types ! i"] "1.prems"(4,5) mem
    obtain e h1 where
      trial: "tryRemoveArrays_trial store baseElements attrkey charkey xmlnskey namespace
                (types ! i) newValue h = Some (Inl e, h1)"
      by blast
    have alloc: "newValue < length h"
      using "1.prems"(1) by (rule getProp_Arr_allocated)
    have keep: "objAt h1 newValue = objAt h newValue"
      using trial_keeps_input [OF trial alloc] by simp
    have "getProp (objAt h1 newValue) name = Arr xs"
      using keep "1.prems"(1) by simp
    from "1.IH" [OF True trial refl refl this "1.prems"(2,3,4,5)] True trial
    show ?thesis by simp
  qed
qed

lemma ex_trial_fails:
  "tryRemoveArrays_trial ex_specs ex_globals ''$'' ''_'' ''$ns'' ''t'' ex_single_type 0 ex_document
     = Some (Inl AssertionError,
         ex_document @ [[(''note'', Str ''n''), (''item'', Arr [Str ''a'', Str ''b''])]])"
  by code_simp

lemma ex_run:
  "tryRemoveArrays ex_specs ex_globals ''$'' ''_'' ''$ns'' ''t'' [ex_single_type, ex_array_type] 0
       ex_document
     = Some (Inr 2,
         ex_document @ [[(''note'', Str ''n''), (''item'', Arr [Str ''a'', Str ''b''])],
                        [(''note'', Str ''n''), (''item'', Arr [Str ''a'', Str ''b''])]])"
  by code_simp

lemma ex_note_single:
  "governedAsSingle ex_specs ex_globals ''t'' ex_array_type ''note''"
  by code_simp

lemma ex_note_single':
  "governedAsSingle ex_specs ex_globals ''t'' ex_single_type ''note''"
  by code_simp

lemma ex_item_single:
  "governedAsSingle ex_specs ex_globals ''t'' ex_single_type ''item''"
  by code_simp

lemma ex_resolves:
  "\<forall>t \<in> set [ex_single_type]. \<forall>cs n spec. children t = Some cs \<longrightarrow> cs n = Some spec \<longrightarrow>
       resolveElement ex_specs ex_globals spec \<noteq> None"
proof -
  have "resolveElement ex_specs ex_globals 1 \<noteq> None" by code_simp
  moreover have "resolveElement ex_specs ex_globals 2 \<noteq> None" by code_simp
  ultimately show ?thesis
    by (auto simp: ex_single_type_def split: if_splits)
qed

lemma ex_any_compiled:
  "parseTypes_complexType ''t'' ex_any_complexType ex_compile_state
     = Inr ((''t:Items'', ex_any_type), ex_compile_state\<lparr>elementStore := ex_any_store\<rparr>)"
proof -
  have one: "parseInt ''1'' = Num 1"
    by (simp add: parseInt_def isStrWhiteSpaceChar_def isDigitOfRadix_def digitValue_def
        digitsValue_def numberValue_def roundToDouble_def bitLength.simps)
  show ?thesis
    by (simp add: parseTypes_complexType_def parseTypes_sequence_def parseTypes_any_def
        parseTypes_anyContent_def parseTypesElement_def occursBlock_def allocElement_def
        tagList_def maxOccursIsArray_def one namespacedName_def namespacedTypeName_def
        XS_TYPES_def truthy_def dollarAttr_def dollarWithout_def
        ex_any_complexType_def ex_any_type_def ex_any_store_def ex_compile_state_def)
qed

text \<open>
  C3. The claim goes by the child spec of the group. A type with an \<^verbatim>\<open>any\<close> in its
  sequence has \<^verbatim>\<open>anyChildren\<close>, and \<^verbatim>\<open>tryRemoveArrays\<close> then goes by the \<^verbatim>\<open>isArray\<close> of
  the type and does not look at the child specs. For the type compiled from a sequence
  of \<open>item\<close> (at most once) and an unbounded \<^verbatim>\<open>any\<close>, the child spec of \<open>item\<close>
  resolves to \<^verbatim>\<open>isArray = false\<close>; a node with one \<open>item\<close> is accepted and the
  \<open>item\<close> of the result is still a list, and a node with two \<open>item\<close>s is accepted.
\<close>

theorem tryRemoveArrays_any_overrides_child_spec:
  "parseTypes_complexType ''t'' ex_any_complexType ex_compile_state
     = Inr ((''t:Items'', ex_any_type), ex_compile_state\<lparr>elementStore := ex_any_store\<rparr>)
   \<and> resolveElement_isArray ex_any_store Map.empty 0 = Some (Inr (Some False))
   \<and> childSpecIsNotArray ex_any_store Map.empty ''t'' ex_any_type ''item''
   \<and> tryRemoveArrays ex_any_store Map.empty ''$'' ''_'' ''$ns'' ''t'' [ex_any_type] 0 ex_one_item
       = Some (Inr 1, [[(''item'', Arr [Str ''a''])], [(''item'', Arr [Str ''a''])]])
   \<and> tryRemoveArrays ex_any_store Map.empty ''$'' ''_'' ''$ns'' ''t'' [ex_any_type] 0 ex_two_items
       = Some (Inr 1, [[(''item'', Arr [Str ''a'', Str ''b''])],
                       [(''item'', Arr [Str ''a'', Str ''b''])]])"
proof -
  have "resolveElement_isArray ex_any_store Map.empty 0 = Some (Inr (Some False))"
    by code_simp
  moreover have "childSpecIsNotArray ex_any_store Map.empty ''t'' ex_any_type ''item''"
    by code_simp
  moreover have
    "tryRemoveArrays ex_any_store Map.empty ''$'' ''_'' ''$ns'' ''t'' [ex_any_type] 0 ex_one_item
       = Some (Inr 1, [[(''item'', Arr [Str ''a''])], [(''item'', Arr [Str ''a''])]])"
    by code_simp
  moreover have
    "tryRemoveArrays ex_any_store Map.empty ''$'' ''_'' ''$ns'' ''t'' [ex_any_type] 0 ex_two_items
       = Some (Inr 1, [[(''item'', Arr [Str ''a'', Str ''b''])],
                       [(''item'', Arr [Str ''a'', Str ''b''])]])"
    by code_simp
  ultimately show ?thesis
    using ex_any_compiled by simp
qed

text \<open>
  C3, as the code has it. The node is an allocated object with distinct keys. When
  \<^verbatim>\<open>tryRemoveArrays\<close> returns, what it returns is the result of the trial of one of the
  candidate types, run on the node as it was given; and every child group (an array,
  under a key that is not reserved) that this type governs as "not an array" (by its
  own \<^verbatim>\<open>isArray\<close> when it has \<^verbatim>\<open>anyChildren\<close>, by the resolved child spec otherwise)
  had exactly one occurrence, which is the value of that key in the returned node.
  When a child group with two or more occurrences is governed as "not an array" by
  every candidate type (and the child specs of the types resolve at all),
  \<^verbatim>\<open>tryRemoveArrays\<close> throws.
\<close>

theorem tryRemoveArrays_single_occurrence:
  assumes "newValue < length h" and "distinct (map fst (objAt h newValue))"
  shows
    "(tryRemoveArrays store baseElements attrkey charkey xmlnskey namespace types newValue h
        = Some (Inr v, h')
      \<longrightarrow> (\<exists>j hj. j < length types
             \<and> length h \<le> length hj \<and> (\<forall>a < length h. hj ! a = h ! a)
             \<and> tryRemoveArrays_trial store baseElements attrkey charkey xmlnskey namespace
                   (types ! j) newValue hj = Some (Inr v, h')
             \<and> (\<forall>name xs.
                   getProp (objAt h newValue) name = Arr xs
                   \<and> \<not> isReservedKey attrkey charkey xmlnskey name
                   \<and> governedAsSingle store baseElements namespace (types ! j) name
                   \<longrightarrow> (\<exists>x. xs = [x] \<and> getProp (objAt h' v) name = x))))
     \<and> (getProp (objAt h newValue) name = Arr xs \<and> 2 \<le> length xs
        \<and> \<not> isReservedKey attrkey charkey xmlnskey name
        \<and> (\<forall>t \<in> set types. governedAsSingle store baseElements namespace t name)
        \<and> (\<forall>t \<in> set types. \<forall>cs n spec. children t = Some cs \<longrightarrow> cs n = Some spec \<longrightarrow>
              resolveElement store baseElements spec \<noteq> None)
      \<longrightarrow> (\<exists>e h''. tryRemoveArrays store baseElements attrkey charkey xmlnskey namespace
              types newValue h = Some (Inl e, h'')))"
proof -
  have first: "\<exists>j hj. j < length types
             \<and> length h \<le> length hj \<and> (\<forall>a < length h. hj ! a = h ! a)
             \<and> tryRemoveArrays_trial store baseElements attrkey charkey xmlnskey namespace
                   (types ! j) newValue hj = Some (Inr v, h')
             \<and> (\<forall>name xs.
                   getProp (objAt h newValue) name = Arr xs
                   \<and> \<not> isReservedKey attrkey charkey xmlnskey name
                   \<and> governedAsSingle store baseElements namespace (types ! j) name
                   \<longrightarrow> (\<exists>x. xs = [x] \<and> getProp (objAt h' v) name = x))"
    if run: "tryRemoveArrays_loop store baseElements attrkey charkey xmlnskey namespace types
               newValue 0 None h = Some (Inr v, h')"
  proof -
    have some: "0 < length types"
    proof (rule ccontr)
      assume "\<not> 0 < length types"
      with run show False by simp
    qed
    from tryRemoveArrays_loop_outcome [OF run some] obtain j hj where
      j: "j < length types" and
      ext: "length h \<le> length hj" "\<forall>a < length h. hj ! a = h ! a" and
      trial: "tryRemoveArrays_trial store baseElements attrkey charkey xmlnskey namespace
               (types ! j) newValue hj = Some (Inr v, h')"
      by blast
    have same: "objAt hj newValue = objAt h newValue"
      using assms(1) ext by (simp add: objAt_def)
    have "\<exists>x. xs = [x] \<and> getProp (objAt h' v) name = x"
      if "getProp (objAt h newValue) name = Arr xs"
        "\<not> isReservedKey attrkey charkey xmlnskey name"
        "governedAsSingle store baseElements namespace (types ! j) name" for name xs
      using tryRemoveArrays_trial_collapses [OF trial _ _ that(2,3), of xs] assms(2) that(1) same
      by simp
    with j ext trial show ?thesis by blast
  qed
  from first
    tryRemoveArrays_loop_fails [of h newValue name xs attrkey charkey xmlnskey types store
      baseElements namespace 0 None]
  show ?thesis
    unfolding tryRemoveArrays_def by blast
qed

theorem tryRemoveArrays_single_occurrence_witness:
  "0 < length ex_document \<and> distinct (map fst (objAt ex_document 0))
   \<and> (\<exists>h'. tryRemoveArrays ex_specs ex_globals ''$'' ''_'' ''$ns'' ''t''
               [ex_single_type, ex_array_type] 0 ex_document = Some (Inr 2, h')
             \<and> getProp (objAt h' 2) ''note'' = Str ''n'')
   \<and> (\<exists>e h''. tryRemoveArrays ex_specs ex_globals ''$'' ''_'' ''$ns'' ''t''
               [ex_single_type] 0 ex_document = Some (Inl e, h''))"
proof -
  let ?h' = "ex_document @ [[(''note'', Str ''n''), (''item'', Arr [Str ''a'', Str ''b''])],
                        [(''note'', Str ''n''), (''item'', Arr [Str ''a'', Str ''b''])]]"
  have alloc: "0 < length ex_document"
    by (simp add: ex_document_def)
  have dist: "distinct (map fst (objAt ex_document 0))"
    by (simp add: ex_document_def objAt_def)
  have one_note: "getProp (objAt ex_document 0) ''note'' = Arr [Str ''n'']"
    by (simp add: ex_document_def objAt_def getProp_def)
  have two_items: "getProp (objAt ex_document 0) ''item'' = Arr [Str ''a'', Str ''b'']"
    by (simp add: ex_document_def objAt_def getProp_def)
  have unreserved: "\<not> isReservedKey ''$'' ''_'' ''$ns'' ''note''"
    "\<not> isReservedKey ''$'' ''_'' ''$ns'' ''item''"
    by (simp_all add: isReservedKey_def)
  have single: "\<forall>j < length [ex_single_type, ex_array_type].
      governedAsSingle ex_specs ex_globals ''t'' ([ex_single_type, ex_array_type] ! j) ''note''"
    using ex_note_single ex_note_single' by (simp add: less_Suc_eq all_conj_distrib numeral_2_eq_2)
  from tryRemoveArrays_single_occurrence [OF alloc dist, of ex_specs ex_globals "''$''" "''_''"
      "''$ns''" "''t''" "[ex_single_type, ex_array_type]" 2 ?h'] ex_run
  obtain j where "j < length [ex_single_type, ex_array_type]"
    and all: "\<forall>name xs. getProp (objAt ex_document 0) name = Arr xs
         \<and> \<not> isReservedKey ''$'' ''_'' ''$ns'' name
         \<and> governedAsSingle ex_specs ex_globals ''t'' ([ex_single_type, ex_array_type] ! j) name
         \<longrightarrow> (\<exists>x. xs = [x] \<and> getProp (objAt ?h' 2) name = x)"
    by blast
  with one_note unreserved(1) single have "getProp (objAt ?h' 2) ''note'' = Str ''n''"
    by blast
  with ex_run have first: "\<exists>h'. tryRemoveArrays ex_specs ex_globals ''$'' ''_'' ''$ns'' ''t''
               [ex_single_type, ex_array_type] 0 ex_document = Some (Inr 2, h')
             \<and> getProp (objAt h' 2) ''note'' = Str ''n''"
    by blast
  have "\<forall>t \<in> set [ex_single_type]. governedAsSingle ex_specs ex_globals ''t'' t ''item''"
    using ex_item_single by simp
  with tryRemoveArrays_single_occurrence [OF alloc dist, of ex_specs ex_globals "''$''" "''_''"
      "''$ns''" "''t''" "[ex_single_type]" 0 "[]" "''item''" "[Str ''a'', Str ''b'']"]
    two_items unreserved(2) ex_resolves
  have second: "\<exists>e h''. tryRemoveArrays ex_specs ex_globals ''$'' ''_'' ''$ns'' ''t''
               [ex_single_type] 0 ex_document = Some (Inl e, h'')"
    by simp
  from alloc dist first second show ?thesis by blast
qed

lemma ex_second_trial:
  "tryRemoveArrays_trial ex_specs ex_globals ''$'' ''_'' ''$ns'' ''t'' ex_array_type 0
       (ex_document @ [[(''note'', Str ''n''), (''item'', Arr [Str ''a'', Str ''b''])]])
     = Some (Inr 2,
         ex_document @ [[(''note'', Str ''n''), (''item'', Arr [Str ''a'', Str ''b''])],
                        [(''note'', Str ''n''), (''item'', Arr [Str ''a'', Str ''b''])]])"
  by code_simp

text \<open>
  C5. A trial of \<^verbatim>\<open>tryRemoveArrays\<close> allocates one object, its working copy, and
  leaves every object that was in the heap as it was, whether it throws or returns;
  when it returns, it returns the copy. The loop leaves every object that was in the
  heap as it was, and what it returns or throws is the outcome of one of its trials,
  run on the node that the loop was given, in a heap that still holds every object of
  the start, the node among them, as it was: no trial sees what a trial before it
  wrote. \<^verbatim>\<open>tryParse\<close> hands the string \<open>s\<close>, which no parser can change, to every
  attempt.
\<close>

theorem tryRemoveArrays_confines_mutation:
  "(tryRemoveArrays_trial store baseElements attrkey charkey xmlnskey namespace t newValue h
      = Some (outcome, h1)
    \<longrightarrow> length h1 = Suc (length h) \<and> (\<forall>a < length h. h1 ! a = h ! a)
        \<and> (\<forall>v. outcome = Inr v \<longrightarrow> v = length h))
   \<and> (tryRemoveArrays_loop store baseElements attrkey charkey xmlnskey namespace types newValue
        i exception h = Some (result, h')
      \<longrightarrow> (\<forall>a < length h. h' ! a = h ! a)
          \<and> (i < length types \<longrightarrow>
               (\<exists>j hj. i \<le> j \<and> j < length types
                  \<and> length h \<le> length hj \<and> (\<forall>a < length h. hj ! a = h ! a)
                  \<and> (newValue < length h \<longrightarrow> objAt hj newValue = objAt h newValue)
                  \<and> tryRemoveArrays_trial store baseElements attrkey charkey xmlnskey namespace
                       (types ! j) newValue hj = Some (result, h'))))
   \<and> tryParse_loop parsers s k caught =
       (if k < length parsers then (parsers ! 0) s
        else (case caught of None \<Rightarrow> Inl AssertionError | Some e \<Rightarrow> Inl e))"
proof -
  have trial: "length h1 = Suc (length h) \<and> (\<forall>a < length h. h1 ! a = h ! a)
        \<and> (\<forall>v. outcome = Inr v \<longrightarrow> v = length h)"
    if "tryRemoveArrays_trial store baseElements attrkey charkey xmlnskey namespace t newValue h
      = Some (outcome, h1)"
    using tryRemoveArrays_trial_frame [OF that] by blast
  have frame: "\<forall>a < length h. h' ! a = h ! a"
    if "tryRemoveArrays_loop store baseElements attrkey charkey xmlnskey namespace types newValue
        i exception h = Some (result, h')"
    using tryRemoveArrays_loop_frame [OF that] by blast
  have one: "\<exists>j hj. i \<le> j \<and> j < length types
                  \<and> length h \<le> length hj \<and> (\<forall>a < length h. hj ! a = h ! a)
                  \<and> (newValue < length h \<longrightarrow> objAt hj newValue = objAt h newValue)
                  \<and> tryRemoveArrays_trial store baseElements attrkey charkey xmlnskey namespace
                       (types ! j) newValue hj = Some (result, h')"
    if run: "tryRemoveArrays_loop store baseElements attrkey charkey xmlnskey namespace types
        newValue i exception h = Some (result, h')" and some: "i < length types"
  proof -
    from tryRemoveArrays_loop_outcome [OF run some] obtain j hj where
      j: "i \<le> j" "j < length types" and
      ext: "length h \<le> length hj" "\<forall>a < length h. hj ! a = h ! a" and
      tr: "tryRemoveArrays_trial store baseElements attrkey charkey xmlnskey namespace
               (types ! j) newValue hj = Some (result, h')"
      by blast
    have "objAt hj newValue = objAt h newValue" if "newValue < length h"
      using that ext by (simp add: objAt_def)
    with j ext tr show ?thesis by blast
  qed
  from trial frame one tryParse_loop_eq [of parsers s k caught] show ?thesis
    by blast
qed

theorem tryRemoveArrays_confines_mutation_witness:
  "(\<exists>h1. tryRemoveArrays_trial ex_specs ex_globals ''$'' ''_'' ''$ns'' ''t'' ex_single_type 0
             ex_document = Some (Inl AssertionError, h1)
          \<and> h1 ! 1 \<noteq> ex_document ! 0 \<and> h1 ! 0 = ex_document ! 0
          \<and> (\<exists>h'. tryRemoveArrays_loop ex_specs ex_globals ''$'' ''_'' ''$ns'' ''t''
                [ex_single_type, ex_array_type] 0 0 None ex_document = Some (Inr 2, h')
              \<and> h' ! 0 = ex_document ! 0
              \<and> tryRemoveArrays_trial ex_specs ex_globals ''$'' ''_'' ''$ns'' ''t'' ex_array_type 0
                   h1 = Some (Inr 2, h')))
   \<and> (\<exists>j hj h'. j < 2 \<and> objAt hj 0 = objAt ex_document 0
          \<and> tryRemoveArrays_trial ex_specs ex_globals ''$'' ''_'' ''$ns'' ''t''
               ([ex_single_type, ex_array_type] ! j) 0 hj = Some (Inr 2, h'))"
proof -
  let ?h1 = "ex_document @ [[(''note'', Str ''n''), (''item'', Arr [Str ''a'', Str ''b''])]]"
  let ?h' = "ex_document @ [[(''note'', Str ''n''), (''item'', Arr [Str ''a'', Str ''b''])],
                        [(''note'', Str ''n''), (''item'', Arr [Str ''a'', Str ''b''])]]"
  have len: "0 < length ex_document"
    by (simp add: ex_document_def)
  have run: "tryRemoveArrays_loop ex_specs ex_globals ''$'' ''_'' ''$ns'' ''t''
             [ex_single_type, ex_array_type] 0 0 None ex_document = Some (Inr 2, ?h')"
    using ex_run by (simp add: tryRemoveArrays_def)
  note confined = tryRemoveArrays_confines_mutation [of ex_specs ex_globals "''$''" "''_''"
      "''$ns''" "''t''" ex_single_type 0 ex_document "Inl AssertionError" ?h1
      "[ex_single_type, ex_array_type]" 0 None "Inr 2" ?h'
      "[types_string_parse]" "''n''" 0 None]
  have "?h1 ! 0 = ex_document ! 0"
    using confined [THEN conjunct1] ex_trial_fails len by blast
  moreover have "?h' ! 0 = ex_document ! 0"
    using confined [THEN conjunct2, THEN conjunct1] run len by blast
  moreover have "?h1 ! 1 \<noteq> ex_document ! 0"
    by (simp add: ex_document_def)
  moreover have "\<exists>j hj. j < 2 \<and> objAt hj 0 = objAt ex_document 0
          \<and> tryRemoveArrays_trial ex_specs ex_globals ''$'' ''_'' ''$ns'' ''t''
               ([ex_single_type, ex_array_type] ! j) 0 hj = Some (Inr 2, ?h')"
  proof -
    have "0 < length [ex_single_type, ex_array_type]"
      by simp
    with confined [THEN conjunct2, THEN conjunct1] run obtain j hj where
      j: "j < length [ex_single_type, ex_array_type]" and
      same: "0 < length ex_document \<longrightarrow> objAt hj 0 = objAt ex_document 0" and
      tr: "tryRemoveArrays_trial ex_specs ex_globals ''$'' ''_'' ''$ns'' ''t''
               ([ex_single_type, ex_array_type] ! j) 0 hj = Some (Inr 2, ?h')"
      by blast
    from j have "j < 2" by simp
    with same len tr show ?thesis by blast
  qed
  ultimately show ?thesis
    using ex_trial_fails run ex_second_trial by blast
qed

section \<open>Properties of the namespace-prefix table\<close>

lemma hidesHasOwnProperty_append:
  "hidesHasOwnProperty (xs @ (k, x) # ys)
     = (k = ''hasOwnProperty'' \<or> hidesHasOwnProperty (xs @ ys))"
  by (auto simp: hidesHasOwnProperty_def)

lemma hidesHasOwnProperty_left: "\<not> hidesHasOwnProperty (xs @ ys) \<Longrightarrow> \<not> hidesHasOwnProperty xs"
  by (auto simp: hidesHasOwnProperty_def)

lemma attrs_keeps_bindings:
  "prefixes uri = Some p \<Longrightarrow> p \<noteq> [] \<Longrightarrow>
     snd (parseNamespacePrefixes_attrs obj attrs xsPrefix prefixes) uri = Some p"
proof (induction attrs arbitrary: xsPrefix prefixes)
  case Nil
  then show ?case by simp
next
  case (Cons a attrs)
  obtain attr val where a: "a = (attr, val)" by (cases a)
  let ?np' = "prefixes(val \<mapsto> drop 6 attr)"
  have same: "snd (parseNamespacePrefixes_attrs obj attrs xs prefixes) uri = Some p" for xs
    by (rule Cons.IH [of prefixes xs]) (rule Cons.prems)+
  have step: "snd (parseNamespacePrefixes_attrs obj attrs xs ?np') uri = Some p"
    if "prefixes val = None \<or> prefixes val = Some (drop 6 attr)
        \<or> prefixes val = Some []" for xs
  proof -
    have "?np' uri = Some p"
      using that Cons.prems by auto
    then show ?thesis
      by (rule Cons.IH [of ?np' xs]) (rule Cons.prems(2))
  qed
  show ?case
    unfolding a using Cons.prems step same
    by (simp add: Let_def lookupProperty_def split: option.splits)
qed

lemma elements_keeps_bindings:
  "prefixes uri = Some p \<Longrightarrow> p \<noteq> [] \<Longrightarrow>
     snd (parseNamespacePrefixes_elements obj input xsPrefix prefixes) uri = Some p"
proof (induction input arbitrary: xsPrefix prefixes)
  case Nil
  then show ?case by simp
next
  case (Cons a input)
  obtain element schema where a: "a = (element, schema)" by (cases a)
  show ?case
  proof (cases "hidesHasOwnProperty obj")
    case True
    with Cons.prems show ?thesis unfolding a by simp
  next
    case False
    show ?thesis
    proof (cases "dollar schema")
      case None
      with False Cons.IH [of prefixes xsPrefix] Cons.prems show ?thesis
        unfolding a by simp
    next
      case (Some attrs)
      obtain r np' where
        step: "parseNamespacePrefixes_attrs attrs attrs xsPrefix prefixes = (r, np')"
        by (cases "parseNamespacePrefixes_attrs attrs attrs xsPrefix prefixes")
      have kept: "np' uri = Some p"
        using attrs_keeps_bindings [of prefixes uri p attrs attrs xsPrefix] Cons.prems step
        by simp
      show ?thesis
      proof (cases r)
        case (Inl err)
        with False Some step kept show ?thesis unfolding a by simp
      next
        case (Inr xsPrefix')
        with False Some step Cons.IH [of np' xsPrefix'] kept Cons.prems(2) show ?thesis
          unfolding a by simp
      qed
    qed
  qed
qed

lemma attrs_append:
  "parseNamespacePrefixes_attrs obj (pre @ post) xsPrefix prefixes =
     (case parseNamespacePrefixes_attrs obj pre xsPrefix prefixes of
        (Inl err, np) \<Rightarrow> (Inl err, np)
      | (Inr xsPrefix', np) \<Rightarrow> parseNamespacePrefixes_attrs obj post xsPrefix' np)"
proof (induction pre arbitrary: xsPrefix prefixes)
  case Nil
  then show ?case by simp
next
  case (Cons a pre)
  obtain attr val where a: "a = (attr, val)" by (cases a)
  show ?case
    unfolding a
    by (simp add: Let_def Cons.IH [abs_def] split: option.splits property.splits)
qed

lemma attrs_object:
  "\<not> hidesHasOwnProperty obj \<Longrightarrow> \<not> hidesHasOwnProperty obj' \<Longrightarrow>
     parseNamespacePrefixes_attrs obj attrs xsPrefix prefixes
       = parseNamespacePrefixes_attrs obj' attrs xsPrefix prefixes"
proof (induction attrs arbitrary: xsPrefix prefixes)
  case Nil
  then show ?case by simp
next
  case (Cons a attrs)
  obtain attr val where a: "a = (attr, val)" by (cases a)
  show ?case
    unfolding a using Cons.prems
    by (simp add: Let_def Cons.IH [OF Cons.prems, abs_def] split: option.splits property.splits)
qed

lemma attrs_records:
  "parseNamespacePrefixes_attrs obj attrs xsPrefix prefixes = (Inr xsPrefix', np) \<Longrightarrow>
     (a, u) \<in> set attrs \<Longrightarrow> take 6 a = ''xmlns:'' \<Longrightarrow> u \<noteq> XMLSchema_uri \<Longrightarrow>
     drop 6 a \<noteq> [] \<and> np u = Some (drop 6 a)"
proof (induction attrs arbitrary: xsPrefix prefixes)
  case Nil
  then show ?case by simp
next
  case (Cons b attrs)
  obtain attr val where b: "b = (attr, val)" by (cases b)
  from Cons.prems(1) have visible: "\<not> hidesHasOwnProperty obj"
    unfolding b by (auto split: if_splits)
  show ?case
  proof (cases "(a, u) = (attr, val)")
    case True
    then have av: "attr = a" "val = u" by simp_all
    from Cons.prems(1,3,4) visible have
      named: "drop 6 a \<noteq> []" and
      rest: "parseNamespacePrefixes_attrs obj attrs xsPrefix (prefixes(u \<mapsto> drop 6 a))
               = (Inr xsPrefix', np)"
      unfolding b av
      by (auto simp: Let_def split: if_splits option.splits property.splits)
    have "(prefixes(u \<mapsto> drop 6 a)) u = Some (drop 6 a)"
      by simp
    with attrs_keeps_bindings [of "prefixes(u \<mapsto> drop 6 a)" u "drop 6 a" obj attrs xsPrefix]
      rest named
    show ?thesis by simp
  next
    case False
    with Cons.prems(2) have later: "(a, u) \<in> set attrs"
      unfolding b by auto
    from Cons.prems(1) visible obtain xs' np' where
      "parseNamespacePrefixes_attrs obj attrs xs' np' = (Inr xsPrefix', np)"
      unfolding b
      by (auto simp: Let_def split: if_splits option.splits property.splits)
    from Cons.IH [OF this later Cons.prems(3,4)] show ?thesis .
  qed
qed

lemma elements_records:
  "parseNamespacePrefixes_elements obj input xsPrefix prefixes = (Inr xsPrefix', np) \<Longrightarrow>
     (element, schema) \<in> set input \<Longrightarrow> dollar schema = Some attrs \<Longrightarrow>
     (a, u) \<in> set attrs \<Longrightarrow> take 6 a = ''xmlns:'' \<Longrightarrow> u \<noteq> XMLSchema_uri \<Longrightarrow>
     drop 6 a \<noteq> [] \<and> np u = Some (drop 6 a)"
proof (induction input arbitrary: xsPrefix prefixes)
  case Nil
  then show ?case by simp
next
  case (Cons b input)
  obtain element' schema' where b: "b = (element', schema')" by (cases b)
  from Cons.prems(1) have visible: "\<not> hidesHasOwnProperty obj"
    unfolding b by (auto split: if_splits)
  show ?case
  proof (cases "(element, schema) = (element', schema')")
    case True
    then have s: "schema' = schema" by simp
    from Cons.prems(1,3) visible obtain xs1 np1 where
      first: "parseNamespacePrefixes_attrs attrs attrs xsPrefix prefixes = (Inr xs1, np1)" and
      rest: "parseNamespacePrefixes_elements obj input xs1 np1 = (Inr xsPrefix', np)"
      unfolding b s by (auto split: prod.splits sum.splits)
    from attrs_records [OF first Cons.prems(4,5,6)] have
      named: "drop 6 a \<noteq> []" and bound: "np1 u = Some (drop 6 a)"
      by simp_all
    from elements_keeps_bindings [of np1 u "drop 6 a" obj input xs1] bound rest named
    show ?thesis by simp
  next
    case False
    with Cons.prems(2) have later: "(element, schema) \<in> set input"
      unfolding b by auto
    from Cons.prems(1) visible obtain xs' np' where
      "parseNamespacePrefixes_elements obj input xs' np' = (Inr xsPrefix', np)"
      unfolding b by (auto split: prod.splits sum.splits option.splits)
    from Cons.IH [OF this later Cons.prems(3,4,5,6)] show ?thesis .
  qed
qed

text \<open>
  C9. No attribute and no root element is named \<^verbatim>\<open>hasOwnProperty\<close>. Let the table bind
  \<open>uri\<close> (not the XML Schema namespace, which is never recorded) to the prefix
  \<open>known\<close>, and let the declarations \<open>pre\<close> of a schema root be accepted. A following
  declaration of \<open>uri\<close> with another prefix is the conflict error; a following
  declaration of \<open>uri\<close> with the prefix \<open>known\<close> is accepted and changes nothing (the
  schema is read as if the declaration were not there); and whatever a schema
  declares, and whether it is accepted or not, \<open>uri\<close> is bound to \<open>known\<close> afterwards.
  A declaration of a schema that is accepted is recorded: the table that the call
  leaves binds the URI to the declared prefix, so that a later schema that declares
  the URI with another prefix meets the conflict error.
\<close>

theorem namespace_prefix_binding:
  assumes known: "prefixes uri = Some known" "known \<noteq> []"
    and not_xs: "uri \<noteq> XMLSchema_uri"
    and pre: "parseNamespacePrefixes_attrs pre pre [] prefixes = (Inr xsPrefix, np)"
    and plain: "\<not> hidesHasOwnProperty (pre @ post)" "element \<noteq> ''hasOwnProperty''"
  shows
    "(prefix \<noteq> [] \<and> prefix \<noteq> known \<longrightarrow>
        parseNamespacePrefixes prefixes
          [(element, XNode (Some (pre @ (''xmlns:'' @ prefix, uri) # post)) tags)]
        = (Inl (ConflictingNamespaceDeclaration known prefix), np))
     \<and> parseNamespacePrefixes prefixes
          [(element, XNode (Some (pre @ (''xmlns:'' @ known, uri) # post)) tags)]
        = parseNamespacePrefixes prefixes [(element, XNode (Some (pre @ post)) tags)]
     \<and> snd (parseNamespacePrefixes prefixes input) uri = Some known
     \<and> (parseNamespacePrefixes table schemas = (Inr xs, table')
        \<and> (root, XNode (Some attrs) kids) \<in> set schemas
        \<and> (''xmlns:'' @ p, u) \<in> set attrs \<and> u \<noteq> XMLSchema_uri
        \<longrightarrow> table' u = Some p
            \<and> (q \<noteq> [] \<and> q \<noteq> p \<and> later \<noteq> ''hasOwnProperty'' \<longrightarrow>
                 parseNamespacePrefixes table' [(later, XNode (Some [(''xmlns:'' @ q, u)]) tags')]
                 = (Inl (ConflictingNamespaceDeclaration p q), table')))"
proof -
  have kept: "np uri = Some known"
    using attrs_keeps_bindings [of prefixes uri known pre pre "[]"] known pre by simp
  then have idem: "np(uri \<mapsto> known) = np"
    by (rule map_upd_triv)
  have visible: "\<not> hidesHasOwnProperty (pre @ (''xmlns:'' @ k, uri) # post)" for k
    using plain(1) by (simp add: hidesHasOwnProperty_append)
  have visible_pre: "\<not> hidesHasOwnProperty pre"
    using plain(1) by (rule hidesHasOwnProperty_left)
  have single: "\<not> hidesHasOwnProperty [(element, x)]" for x :: xmlnode
    using plain(2) by (simp add: hidesHasOwnProperty_def)
  have pre': "parseNamespacePrefixes_attrs obj pre [] prefixes = (Inr xsPrefix, np)"
    if "\<not> hidesHasOwnProperty obj" for obj
    using attrs_object [OF that visible_pre, of pre "[]" prefixes] pre by simp
  have conflict: "parseNamespacePrefixes_attrs obj ((''xmlns:'' @ prefix, uri) # post) xsPrefix np
      = (Inl (ConflictingNamespaceDeclaration known prefix), np)"
    if "prefix \<noteq> []" "prefix \<noteq> known" "\<not> hidesHasOwnProperty obj" for obj
    using that kept known(2) not_xs by (simp add: lookupProperty_own)
  have same: "parseNamespacePrefixes_attrs obj ((''xmlns:'' @ known, uri) # post) xsPrefix np
      = parseNamespacePrefixes_attrs obj post xsPrefix np"
    if "\<not> hidesHasOwnProperty obj" for obj
    using that kept known(2) not_xs idem by (simp add: lookupProperty_own)
  have a: "parseNamespacePrefixes prefixes
          [(element, XNode (Some (pre @ (''xmlns:'' @ prefix, uri) # post)) tags)]
        = (Inl (ConflictingNamespaceDeclaration known prefix), np)"
    if "prefix \<noteq> []" "prefix \<noteq> known"
    using conflict [OF that visible] pre' [OF visible] single
    by (simp add: parseNamespacePrefixes_def attrs_append)
  have "parseNamespacePrefixes_attrs (pre @ (''xmlns:'' @ known, uri) # post)
          (pre @ (''xmlns:'' @ known, uri) # post) [] prefixes
        = parseNamespacePrefixes_attrs (pre @ post) (pre @ post) [] prefixes"
    using same [OF visible] pre' [OF visible] pre' [OF plain(1)]
      attrs_object [OF visible plain(1), of known post xsPrefix np]
    by (simp add: attrs_append)
  then have b: "parseNamespacePrefixes prefixes
          [(element, XNode (Some (pre @ (''xmlns:'' @ known, uri) # post)) tags)]
        = parseNamespacePrefixes prefixes [(element, XNode (Some (pre @ post)) tags)]"
    using single by (simp add: parseNamespacePrefixes_def split: prod.splits sum.splits)
  have c: "snd (parseNamespacePrefixes prefixes input) uri = Some known"
    using elements_keeps_bindings [of prefixes uri known input input "[]"] known
    by (simp add: parseNamespacePrefixes_def)
  have d: "table' u = Some p
            \<and> (q \<noteq> [] \<and> q \<noteq> p \<and> later \<noteq> ''hasOwnProperty'' \<longrightarrow>
                 parseNamespacePrefixes table' [(later, XNode (Some [(''xmlns:'' @ q, u)]) tags')]
                 = (Inl (ConflictingNamespaceDeclaration p q), table'))"
    if run: "parseNamespacePrefixes table schemas = (Inr xs, table')"
      and decl: "(root, XNode (Some attrs) kids) \<in> set schemas"
        "(''xmlns:'' @ p, u) \<in> set attrs" "u \<noteq> XMLSchema_uri"
  proof -
    from run have "parseNamespacePrefixes_elements schemas schemas [] table = (Inr xs, table')"
      by (simp add: parseNamespacePrefixes_def)
    from elements_records [OF this decl(1) _ decl(2) _ decl(3)]
    have named: "p \<noteq> []" and bound: "table' u = Some p"
      by simp_all
    have "parseNamespacePrefixes table' [(later, XNode (Some [(''xmlns:'' @ q, u)]) tags')]
            = (Inl (ConflictingNamespaceDeclaration p q), table')"
      if "q \<noteq> []" "q \<noteq> p" "later \<noteq> ''hasOwnProperty''"
      using that named bound decl(3)
      by (simp add: parseNamespacePrefixes_def hidesHasOwnProperty_def lookupProperty_own)
    with bound show ?thesis by blast
  qed
  from a b c d show ?thesis
    by blast
qed

theorem namespace_prefix_binding_witness:
  "parseNamespacePrefixes ex_prefixes
      [(''xs:schema'', XNode (Some [(''xmlns:xs'', XMLSchema_uri), (''xmlns:b'', ''urn:a'')]) [])]
     = (Inl (ConflictingNamespaceDeclaration ''a'' ''b''), ex_prefixes)
   \<and> parseNamespacePrefixes ex_prefixes
      [(''xs:schema'', XNode (Some [(''xmlns:xs'', XMLSchema_uri), (''xmlns:a'', ''urn:a'')]) [])]
     = (Inr ''xs:'', ex_prefixes)
   \<and> snd (parseNamespacePrefixes ex_prefixes
        [(''xs:schema'', XNode (Some [(''xmlns:c'', ''urn:c''), (''xmlns:b'', ''urn:a'')]) [])]) ''urn:a''
     = Some ''a''
   \<and> parseNamespacePrefixes ex_prefixes
        [(''xs:schema'', XNode (Some [(''xmlns:xs'', XMLSchema_uri), (''xmlns:c'', ''urn:c'')]) [])]
     = (Inr ''xs:'', ex_prefixes(''urn:c'' \<mapsto> ''c''))
   \<and> (ex_prefixes(''urn:c'' \<mapsto> ''c'')) ''urn:c'' = Some ''c''
   \<and> parseNamespacePrefixes (ex_prefixes(''urn:c'' \<mapsto> ''c''))
        [(''xs:schema'', XNode (Some [(''xmlns:d'', ''urn:c'')]) [])]
     = (Inl (ConflictingNamespaceDeclaration ''c'' ''d''), ex_prefixes(''urn:c'' \<mapsto> ''c''))"
proof -
  have known: "ex_prefixes ''urn:a'' = Some ''a''" "''a'' \<noteq> []"
    by (simp_all add: ex_prefixes_def)
  have not_xs: "''urn:a'' \<noteq> XMLSchema_uri" "''urn:c'' \<noteq> XMLSchema_uri"
    by (simp_all add: XMLSchema_uri_def)
  have visible: "\<not> hidesHasOwnProperty [(''xmlns:xs'', XMLSchema_uri)]"
    "\<not> hidesHasOwnProperty ([(''xmlns:xs'', XMLSchema_uri)] @ [])"
    "\<not> hidesHasOwnProperty [(''xs:schema'', x)]" for x :: xmlnode
    by (simp_all add: hidesHasOwnProperty_def)
  have pre: "parseNamespacePrefixes_attrs [(''xmlns:xs'', XMLSchema_uri)]
        [(''xmlns:xs'', XMLSchema_uri)] [] ex_prefixes
      = (Inr ''xs:'', ex_prefixes)"
    using visible(1) by simp
  have base: "parseNamespacePrefixes ex_prefixes
      [(''xs:schema'', XNode (Some ([(''xmlns:xs'', XMLSchema_uri)] @ [])) [])] = (Inr ''xs:'', ex_prefixes)"
    using visible by (simp add: parseNamespacePrefixes_def)
  have first: "parseNamespacePrefixes ex_prefixes
        [(''xs:schema'', XNode (Some [(''xmlns:xs'', XMLSchema_uri), (''xmlns:c'', ''urn:c'')]) [])]
     = (Inr ''xs:'', ex_prefixes(''urn:c'' \<mapsto> ''c''))"
    using not_xs(2)
    by (simp add: parseNamespacePrefixes_def hidesHasOwnProperty_def lookupProperty_def
        ex_prefixes_def BASE_NAMESPACES_def objectPrototypeNames_def Let_def)
  show ?thesis
    using namespace_prefix_binding [OF known not_xs(1) pre visible(2),
        of "''xs:schema''" "''b''" "[]"
        "[(''xs:schema'', XNode (Some [(''xmlns:c'', ''urn:c''), (''xmlns:b'', ''urn:a'')]) [])]"
        ex_prefixes
        "[(''xs:schema'', XNode (Some [(''xmlns:xs'', XMLSchema_uri), (''xmlns:c'', ''urn:c'')]) [])]"
        "''xs:''" "ex_prefixes(''urn:c'' \<mapsto> ''c'')" "''xs:schema''"
        "[(''xmlns:xs'', XMLSchema_uri), (''xmlns:c'', ''urn:c'')]" "[]" "''c''" "''urn:c''"
        "''d''" "''xs:schema''" "[]"]
      base first not_xs(2)
    by simp
qed

section \<open>Properties of adding a schema\<close>

lemma addSchema_committed:
  "hasValue (parsedSchemas self) namespaceUrl schemaContent \<Longrightarrow>
     addSchema parseString compile self namespaceUrl schemaContent = (Inr emptyMultivalue, self)"
  by (simp add: addSchema_def)

lemma addSchema_commits:
  "addSchema parseString compile self namespaceUrl schemaContent = (Inr pending, self') \<Longrightarrow>
     hasValue (parsedSchemas self') namespaceUrl schemaContent"
  by (auto simp: addSchema_def hasValue_def addValue_def
      split: if_splits sum.splits prod.splits option.splits)

lemma addSchema_grows:
  "hasValue (parsedSchemas self) u b \<Longrightarrow>
     hasValue (parsedSchemas (snd (addSchema parseString compile self namespaceUrl schemaContent))) u b"
  by (auto simp: addSchema_def hasValue_def addValue_def
      split: if_splits sum.splits prod.splits option.splits)

text \<open>
  C6. When the body is among the schemas committed for the URI, \<^verbatim>\<open>addSchema\<close> gives
  the empty map of imports and leaves the parser as it is. A call that succeeds
  commits its body, so a second call with the same URI and body is such a call, and
  \<^verbatim>\<open>knownSchemas()\<close> is the same after it; and a body once committed stays committed,
  whatever is added later.
\<close>

theorem addSchema_again_is_noop:
  "(hasValue (parsedSchemas self) namespaceUrl schemaContent \<longrightarrow>
      addSchema parseString compile self namespaceUrl schemaContent = (Inr emptyMultivalue, self))
   \<and> (addSchema parseString compile self namespaceUrl schemaContent = (Inr pending, self') \<longrightarrow>
      addSchema parseString compile self' namespaceUrl schemaContent = (Inr emptyMultivalue, self')
      \<and> knownSchemas (snd (addSchema parseString compile self' namespaceUrl schemaContent))
          = knownSchemas self')
   \<and> (hasValue (parsedSchemas self) uri body \<longrightarrow>
      hasValue (parsedSchemas (snd (addSchema parseString compile self namespaceUrl schemaContent)))
        uri body)"
  using addSchema_committed [of self namespaceUrl schemaContent parseString compile]
    addSchema_committed [OF addSchema_commits, of parseString compile self namespaceUrl
      schemaContent pending self' parseString compile]
    addSchema_grows [of self uri body parseString compile namespaceUrl schemaContent]
  by simp

lemma ex_first_addSchema:
  "addSchema ex_parseString ex_compile ex_parser ''urn:a'' ''<schema/>'' =
     (Inr emptyMultivalue,
      ex_parser\<lparr>namespacePrefixes := BASE_NAMESPACES(''urn:a'' \<mapsto> ''a''),
        registries := (),
        parsedSchemas := addValue emptyMultivalue ''urn:a'' ''<schema/>''\<rparr>)"
  by (simp add: addSchema_def ex_parseString_def ex_compile_def ex_parser_def hasValue_def
      emptyMultivalue_def parseNamespacePrefixes_def targetNamespace_def BASE_NAMESPACES_def
      XMLSchema_uri_def Let_def lookupProperty_def objectPrototypeNames_def
      hidesHasOwnProperty_def)

theorem addSchema_again_is_noop_witness:
  "\<exists>pending self'.
     addSchema ex_parseString ex_compile ex_parser ''urn:a'' ''<schema/>'' = (Inr pending, self')
     \<and> hasValue (parsedSchemas self') ''urn:a'' ''<schema/>''
     \<and> addSchema ex_parseString ex_compile self' ''urn:a'' ''<schema/>''
         = (Inr emptyMultivalue, self')"
proof -
  let ?self' = "ex_parser\<lparr>namespacePrefixes := BASE_NAMESPACES(''urn:a'' \<mapsto> ''a''),
        registries := (),
        parsedSchemas := addValue emptyMultivalue ''urn:a'' ''<schema/>''\<rparr>"
  have committed: "hasValue (parsedSchemas ?self') ''urn:a'' ''<schema/>''"
    by (simp add: hasValue_def addValue_def)
  from addSchema_again_is_noop [of ?self' "''urn:a''" "''<schema/>''" ex_parseString ex_compile]
    committed
  have "addSchema ex_parseString ex_compile ?self' ''urn:a'' ''<schema/>''
          = (Inr emptyMultivalue, ?self')"
    by blast
  with ex_first_addSchema committed show ?thesis
    by blast
qed

section \<open>Properties of attributes declared on a type\<close>

lemma parseTypesAttribute_declaredName:
  "parseTypesAttribute namespace node st = Inr ((name, spec), st') \<Longrightarrow>
     declaredName namespace node = Some name"
  by (auto simp: parseTypesAttribute_def declaredName_def
      split: option.splits sum.splits if_splits prod.splits)

lemma parseTypes_attributes_dom:
  "parseTypes_attributes namespace nodes acc st = Inr (declared, st') \<Longrightarrow>
     dom acc \<subseteq> dom declared
     \<and> (\<forall>node \<in> set nodes. \<exists>name. declaredName namespace node = Some name \<and> name \<in> dom declared)"
proof (induction nodes arbitrary: acc st)
  case Nil
  then show ?case by simp
next
  case (Cons node nodes)
  from Cons.prems obtain name spec st1 where
    one: "parseTypesAttribute namespace node st = Inr ((name, spec), st1)" and
    rest: "parseTypes_attributes namespace nodes (acc(name \<mapsto> spec)) st1 = Inr (declared, st')"
    by (auto split: sum.splits prod.splits)
  from Cons.IH [OF rest] have
    sub: "dom (acc(name \<mapsto> spec)) \<subseteq> dom declared" and
    others: "\<forall>node \<in> set nodes. \<exists>name. declaredName namespace node = Some name \<and> name \<in> dom declared"
    by blast+
  from sub have "name \<in> dom declared" and "dom acc \<subseteq> dom declared"
    by auto
  with others parseTypesAttribute_declaredName [OF one] show ?case
    by auto
qed

lemma parseTypes_anyContent_absent:
  "tagOf complexType anyContent = None \<Longrightarrow>
     parseTypes_anyContent namespace anyContent complexType st = Inr (None, st)"
  by (simp add: parseTypes_anyContent_def)

lemma parseTypes_complexType_direct_attributes:
  assumes "parseTypes_complexType namespace complexType st = Inr ((typeName, t), st')"
    and "tagOf complexType ''attribute'' = Some nodes"
    and "tagOf complexType ''simpleContent'' = None"
    and "tagOf complexType ''complexContent'' = None"
  shows "content t = None
     \<and> (\<exists>declared. type_entry.attributes t = Some declared
           \<and> (\<forall>node \<in> set nodes.
                 \<exists>name. declaredName namespace node = Some name \<and> name \<in> dom declared))"
  using assms parseTypes_attributes_dom
  unfolding parseTypes_complexType_def
  by (auto simp: parseTypes_anyContent_absent split: sum.splits prod.splits if_splits option.splits)

lemma isSkippedAttribute_nonempty: "isSkippedAttribute n \<Longrightarrow> n \<noteq> []"
  by (auto simp: isSkippedAttribute_def)

lemma namespacedName_returns:
  "namespace \<noteq> [] \<Longrightarrow> name \<noteq> [] \<Longrightarrow> \<exists>q. namespacedName namespace name = Inr q"
  by (simp add: namespacedName_def)

lemma attribute_step_skipped:
  assumes "namespace \<noteq> []" and "isSkippedAttribute n"
  shows "attribute_step types baseAttributes namespace declared a n h
           = Some (None, deleteProp h a n)"
proof -
  from namespacedName_returns [OF assms(1) isSkippedAttribute_nonempty [OF assms(2)]]
  obtain q where "namespacedName namespace n = Inr q" by blast
  with assms(2) show ?thesis
    by (auto simp: attribute_step_def isSkippedAttribute_def)
qed

lemma attribute_step_undeclared:
  assumes "namespacedName namespace n = Inr q" and "\<not> isSkippedAttribute n"
  shows "attribute_step types baseAttributes namespace Map.empty a n h
           = Some (Some (if q \<in> set objectPrototypeNames then AssertionError
                         else UnexpectedAttribute q), h)"
  using assms by (simp add: attribute_step_def isSkippedAttribute_def lookupProperty_def)

lemma each_attribute_step_rejects:
  assumes "namespace \<noteq> []" and "\<forall>n \<in> set skipped. isSkippedAttribute n"
    and "namespacedName namespace n = Inr q" and "\<not> isSkippedAttribute n"
  shows "\<exists>h'. each (attribute_step types baseAttributes namespace Map.empty a)
                  (skipped @ n # rest) h
               = Some (Some (if q \<in> set objectPrototypeNames then AssertionError
                             else UnexpectedAttribute q), h')"
  using assms(2)
proof (induction skipped arbitrary: h)
  case Nil
  show ?case
    by (simp add: attribute_step_undeclared [OF assms(3,4)])
next
  case (Cons k skipped)
  then have k: "isSkippedAttribute k" and others: "\<forall>n \<in> set skipped. isSkippedAttribute n"
    by simp_all
  from Cons.IH [OF others, of "deleteProp h a k"] show ?case
    by (simp add: attribute_step_skipped [OF assms(1) k])
qed

lemma resolveToAttributes_no_content:
  "types typeName = Some t \<Longrightarrow> content t = None \<Longrightarrow>
     resolveToAttributes types typeName = Inr Map.empty"
  by (simp add: resolveToAttributes_def lookupProperty_own)

text \<open>
  C10. A complex type with \<^verbatim>\<open>attribute\<close> children of its own, and with no
  \<^verbatim>\<open>simpleContent\<close> and no \<^verbatim>\<open>complexContent\<close>, is compiled into a type entry that has
  the declared attributes under \<open>attributes\<close> and has no \<open>content\<close>. For a node of
  that type \<^verbatim>\<open>resolveToAttributes\<close> gives the empty map, and the validator throws at
  the first attribute of the node that is neither a namespace declaration nor an
  \<^verbatim>\<open>xsi:\<close> attribute, whether it is declared or not: the "Unexpected attribute"
  error, or, for a qualified name that the empty map inherits, the failed assertion of
  \<^verbatim>\<open>resolveAttributeType\<close>.
\<close>

theorem direct_attributes_are_rejected:
  assumes compiled: "parseTypes_complexType namespace complexType st = Inr ((typeName, t), st')"
    and direct: "tagOf complexType ''attribute'' = Some nodes"
    and no_content: "tagOf complexType ''simpleContent'' = None"
      "tagOf complexType ''complexContent'' = None"
    and registered: "types typeName = Some t"
    and attrs: "getProp (objAt h newValue) attrkey = Ref a"
    and names: "map fst (objAt h a) = skipped @ n # rest"
    and skipped: "\<forall>k \<in> set skipped. isSkippedAttribute k"
    and offending: "\<not> isSkippedAttribute n" "namespacedName prefix n = Inr q"
  shows "content t = None
     \<and> (\<exists>declared. type_entry.attributes t = Some declared
           \<and> (\<forall>node \<in> set nodes.
                 \<exists>name. declaredName namespace node = Some name \<and> name \<in> dom declared))
     \<and> resolveToAttributes types typeName = Inr Map.empty
     \<and> (\<exists>h'. validator_attributes types baseAttributes attrkey prefix typeName newValue h
               = Some (Some (if q \<in> set objectPrototypeNames then AssertionError
                             else UnexpectedAttribute q), h'))"
proof -
  from parseTypes_complexType_direct_attributes [OF compiled direct no_content]
  have no: "content t = None" and
    top: "\<exists>declared. type_entry.attributes t = Some declared
           \<and> (\<forall>node \<in> set nodes.
                 \<exists>name. declaredName namespace node = Some name \<and> name \<in> dom declared)"
    by blast+
  have empty: "resolveToAttributes types typeName = Inr Map.empty"
    using registered no by (rule resolveToAttributes_no_content)
  have "prefix \<noteq> []"
    using offending(2) by (auto simp: namespacedName_def split: if_splits)
  from each_attribute_step_rejects [OF this skipped offending(2,1)]
  obtain h' where
    "each (attribute_step types baseAttributes prefix Map.empty a) (skipped @ n # rest) h
       = Some (Some (if q \<in> set objectPrototypeNames then AssertionError
                     else UnexpectedAttribute q), h')"
    by blast
  then have "validator_attributes types baseAttributes attrkey prefix typeName newValue h
       = Some (Some (if q \<in> set objectPrototypeNames then AssertionError
                     else UnexpectedAttribute q), h')"
    using attrs names empty by (simp add: validator_attributes_def)
  with no top empty show ?thesis
    by blast
qed

lemma ex_measure_compiled:
  "parseTypes_complexType ''t'' ex_complexType ex_compile_state
     = Inr ((''t:Measure'', ex_measure_type), ex_compile_state)"
  by (simp add: parseTypes_complexType_def parseTypes_sequence_def parseTypes_anyContent_def
      parseTypesAttribute_def namespacedName_def namespacedTypeName_def XS_TYPES_def truthy_def
      dollarAttr_def dollarWithout_def lookupProperty_def objectPrototypeNames_def
      ex_complexType_def ex_measure_type_def ex_compile_state_def)

lemma ex_schema_compiled:
  "parseTypes ''t'' ex_schema ex_compile_state
     = Inr ([''t:Measure'' \<mapsto> ex_measure_type], XNode None [], ex_compile_state)"
  by (simp add: parseTypes_def tagList_def ex_schema_def ex_measure_compiled parseSimpleType_def)

theorem direct_attributes_are_rejected_witness:
  "parseTypes ''t'' ex_schema ex_compile_state
     = Inr ([''t:Measure'' \<mapsto> ex_measure_type], XNode None [], ex_compile_state)
   \<and> parseTypes_complexType ''t'' ex_complexType ex_compile_state
     = Inr ((''t:Measure'', ex_measure_type), ex_compile_state)
   \<and> content ex_measure_type = None
   \<and> type_entry.attributes ex_measure_type = Some [''t:unit'' \<mapsto> AttributeType ''string'']
   \<and> declaredName ''t'' (XNode (Some [(''name'', ''unit''), (''type'', ''xs:string'')]) [])
       = Some ''t:unit''
   \<and> resolveToAttributes [''t:Measure'' \<mapsto> ex_measure_type] ''t:Measure'' = Inr Map.empty
   \<and> (\<exists>h'. validator_attributes [''t:Measure'' \<mapsto> ex_measure_type] Map.empty ''$'' ''t''
               ''t:Measure'' 0 ex_measure_node
             = Some (Some (UnexpectedAttribute ''t:unit''), h'))"
proof -
  have direct: "tagOf ex_complexType ''attribute''
      = Some [XNode (Some [(''name'', ''unit''), (''type'', ''xs:string'')]) []]"
    and no_content: "tagOf ex_complexType ''simpleContent'' = None"
      "tagOf ex_complexType ''complexContent'' = None"
    by (simp_all add: ex_complexType_def)
  have registered: "[''t:Measure'' \<mapsto> ex_measure_type] ''t:Measure'' = Some ex_measure_type"
    by simp
  have attrs: "getProp (objAt ex_measure_node 0) ''$'' = Ref 1"
    by (simp add: ex_measure_node_def objAt_def getProp_def)
  have names: "map fst (objAt ex_measure_node 1) = [''xmlns:t''] @ ''unit'' # []"
    by (simp add: ex_measure_node_def objAt_def)
  have skipped: "\<forall>k \<in> set [''xmlns:t'']. isSkippedAttribute k"
    by (simp add: isSkippedAttribute_def)
  have offending: "\<not> isSkippedAttribute ''unit''" "namespacedName ''t'' ''unit'' = Inr ''t:unit''"
    by (simp_all add: isSkippedAttribute_def namespacedName_def)
  have plain: "''t:unit'' \<notin> set objectPrototypeNames"
    by (simp add: objectPrototypeNames_def)
  have name: "declaredName ''t'' (XNode (Some [(''name'', ''unit''), (''type'', ''xs:string'')]) [])
       = Some ''t:unit''"
    by (simp add: declaredName_def truthy_def namespacedName_def)
  have top: "type_entry.attributes ex_measure_type = Some [''t:unit'' \<mapsto> AttributeType ''string'']"
    by (simp add: ex_measure_type_def)
  from direct_attributes_are_rejected
      [where types = "[''t:Measure'' \<mapsto> ex_measure_type]" and baseAttributes = Map.empty,
       OF ex_measure_compiled direct no_content registered attrs names skipped offending]
    plain name top ex_measure_compiled ex_schema_compiled
  show ?thesis
    by simp
qed

end
